theory Spec2Isabelle
  imports Complex_Main "HOL-Library.Word" "HOL-Library.Sublist"
begin

section \<open>JavaScript strings and values\<close>

text \<open>
  A JavaScript string is a sequence of UTF-16 code units; \<open>length\<close> counts code units
  and the regular expressions and \<open>trim\<close> of the validators work on them. A literal
  of the source is written \<open>js ''...''\<close>.
\<close>

type_synonym code_unit = "16 word"
type_synonym jsstring = "code_unit list"

definition js :: "string \<Rightarrow> jsstring" where
  "js s = map of_char s"

text \<open>
  A JavaScript number, as far as the code compares it: \<open>NaN\<close>, the two infinities, or
  a finite value (every finite double is a rational; \<open>-0\<close> is \<open>Finite 0\<close>).
\<close>

datatype number = NaN | NegInfinity | Finite rat | PosInfinity

text \<open>
  The values the validators receive have the TypeScript type \<open>unknown\<close>. The
  validators tell apart \<open>undefined\<close>, \<open>null\<close>, strings, numbers and arrays; every
  other value (booleans, objects) is \<open>Other\<close>.
\<close>

datatype js_value =
    Undefined
  | Null
  | Str jsstring
  | Num number
  | Arr "js_value list"
  | Other

text \<open>
  What a \<open>throw\<close> carries: an \<open>EngramError\<close> of src/engram-api.ts (message, statusCode,
  offline), any other \<open>Error\<close> object with its \<open>name\<close> and \<open>message\<close>, or a value
  that is not an \<open>Error\<close>.
\<close>

datatype js_error =
    EngramError jsstring int bool
  | NativeError jsstring jsstring
  | NonError

text \<open>\<open>new Error(msg)\<close>: the name of a plain error is \<open>Error\<close>.\<close>

definition Error :: "jsstring \<Rightarrow> js_error" where
  "Error msg = NativeError (js ''Error'') msg"

section \<open>The validators (security/validator.ts)\<close>

definition MAX_CONTENT_LENGTH :: nat where "MAX_CONTENT_LENGTH = 50000"
definition MAX_QUERY_LENGTH :: nat where "MAX_QUERY_LENGTH = 2000"

text \<open>The character class \<open>[\x00-\x08\x0B\x0C\x0E-\x1F\x7F]\<close> of \<open>sanitizeString\<close>.\<close>

definition isControl :: "code_unit \<Rightarrow> bool" where
  "isControl c \<longleftrightarrow>
     c \<le> 0x08 \<or> c = 0x0B \<or> c = 0x0C \<or> (0x0E \<le> c \<and> c \<le> 0x1F) \<or> c = 0x7F"

text \<open>
  The code units \<open>String.prototype.trim\<close> removes: ECMAScript WhiteSpace (TAB, VT, FF,
  SP, NBSP, ZWNBSP and the Unicode space separators) and LineTerminator (LF, CR, LS, PS).
\<close>

definition isWhiteSpace :: "code_unit \<Rightarrow> bool" where
  "isWhiteSpace c \<longleftrightarrow>
     c = 0x09 \<or> c = 0x0A \<or> c = 0x0B \<or> c = 0x0C \<or> c = 0x0D \<or> c = 0x20 \<or>
     c = 0xA0 \<or> c = 0x1680 \<or> (0x2000 \<le> c \<and> c \<le> 0x200A) \<or>
     c = 0x2028 \<or> c = 0x2029 \<or> c = 0x202F \<or> c = 0x205F \<or> c = 0x3000 \<or>
     c = 0xFEFF"

definition trim :: "jsstring \<Rightarrow> jsstring" where
  "trim s = rev (dropWhile isWhiteSpace (rev (dropWhile isWhiteSpace s)))"

text \<open>\<open>s.replace(/[...]/g, '').trim()\<close>\<close>

definition sanitizeString :: "jsstring \<Rightarrow> jsstring" where
  "sanitizeString s = trim (filter (\<lambda>c. \<not> isControl c) s)"

fun validateContent :: "js_value \<Rightarrow> js_error + jsstring" where
  "validateContent (Str content) =
     (if length (trim content) = 0
      then Inl (Error (js ''content must be a non-empty string''))
      else let cleaned = sanitizeString content in
        if length cleaned > MAX_CONTENT_LENGTH
        then Inl (Error (js ''content exceeds maximum length of 50000 characters''))
        else Inr cleaned)"
| "validateContent _ = Inl (Error (js ''content must be a non-empty string''))"

fun validateQuery :: "js_value \<Rightarrow> js_error + jsstring" where
  "validateQuery (Str query) =
     (if length (trim query) = 0
      then Inl (Error (js ''query must be a non-empty string''))
      else let cleaned = sanitizeString query in
        if length cleaned > MAX_QUERY_LENGTH
        then Inl (Error (js ''query exceeds maximum length of 2000 characters''))
        else Inr cleaned)"
| "validateQuery _ = Inl (Error (js ''query must be a non-empty string''))"

text \<open>\<open>ID_PATTERN = /^[a-zA-Z0-9_-]{1,128}$/\<close>\<close>

definition isIdChar :: "code_unit \<Rightarrow> bool" where
  "isIdChar c \<longleftrightarrow>
     (0x61 \<le> c \<and> c \<le> 0x7A) \<or> (0x41 \<le> c \<and> c \<le> 0x5A) \<or> (0x30 \<le> c \<and> c \<le> 0x39) \<or>
     c = 0x5F \<or> c = 0x2D"

definition ID_PATTERN_test :: "jsstring \<Rightarrow> bool" where
  "ID_PATTERN_test s \<longleftrightarrow> 1 \<le> length s \<and> length s \<le> 128 \<and> list_all isIdChar s"

fun validateId :: "js_value \<Rightarrow> js_error + jsstring" where
  "validateId (Str id') =
     (if \<not> ID_PATTERN_test id'
      then Inl (Error (js
        ''Invalid ID format. Must be 1-128 alphanumeric characters, hyphens, or underscores.''))
      else Inr id')"
| "validateId _ =
     Inl (Error (js
       ''Invalid ID format. Must be 1-128 alphanumeric characters, hyphens, or underscores.''))"

definition VALID_LAYERS :: "jsstring list" where
  "VALID_LAYERS = [js ''SESSION'', js ''SEMANTIC'', js ''CORE'', js ''META'']"

text \<open>
  \<open>validateLayer\<close> upper-cases with \<open>String.prototype.toUpperCase\<close>, the Unicode case
  mapping of the host; it is a parameter of the model.
\<close>

fun validateLayer :: "(jsstring \<Rightarrow> jsstring) \<Rightarrow> js_value \<Rightarrow> js_error + jsstring option" where
  "validateLayer toUpperCase Undefined = Inr None"
| "validateLayer toUpperCase Null = Inr None"
| "validateLayer toUpperCase (Str layer) =
     (let upper = toUpperCase layer in
      if upper \<notin> set VALID_LAYERS
      then Inl (Error (js ''Invalid layer. Must be one of: SESSION, SEMANTIC, CORE, META''))
      else Inr (Some upper))"
| "validateLayer toUpperCase _ = Inl (Error (js ''layer must be a string''))"

definition MAX_TAG_LENGTH :: nat where "MAX_TAG_LENGTH = 100"
definition MAX_TAGS :: nat where "MAX_TAGS = 20"

text \<open>
  The callback of \<open>tags.map\<close> in \<open>validateTags\<close>, and the map itself: the first element
  that throws ends it.
\<close>

fun validateTag :: "js_value \<Rightarrow> js_error + jsstring" where
  "validateTag (Str t) =
     (let cleaned = sanitizeString t in
      if length cleaned > MAX_TAG_LENGTH then Inl (Error (js ''Tag exceeds 100 characters''))
      else if length cleaned = 0 then Inl (Error (js ''Empty tags not allowed''))
      else Inr cleaned)"
| "validateTag _ = Inl (Error (js ''Each tag must be a string''))"

fun mapThrowing :: "('a \<Rightarrow> js_error + 'b) \<Rightarrow> 'a list \<Rightarrow> js_error + 'b list" where
  "mapThrowing f [] = Inr []"
| "mapThrowing f (x # xs) =
     (case f x of
        Inl err \<Rightarrow> Inl err
      | Inr y \<Rightarrow> (case mapThrowing f xs of Inl err \<Rightarrow> Inl err | Inr ys \<Rightarrow> Inr (y # ys)))"

fun validateTags :: "js_value \<Rightarrow> js_error + jsstring list option" where
  "validateTags Undefined = Inr None"
| "validateTags Null = Inr None"
| "validateTags (Arr tags) =
     (if length tags > MAX_TAGS then Inl (Error (js ''Maximum 20 tags allowed''))
      else (case mapThrowing validateTag tags of
              Inl err \<Rightarrow> Inl err
            | Inr cleaned \<Rightarrow> Inr (Some cleaned)))"
| "validateTags _ = Inl (Error (js ''tags must be an array''))"

fun validateLayerElement :: "(jsstring \<Rightarrow> jsstring) \<Rightarrow> js_value \<Rightarrow> js_error + jsstring" where
  "validateLayerElement toUpperCase l =
     (case validateLayer toUpperCase l of
        Inl err \<Rightarrow> Inl err
      | Inr v \<Rightarrow>
          (case v of
             None \<Rightarrow> Inl (Error (js ''Invalid layer in array''))
           | Some upper \<Rightarrow>
               if upper = [] then Inl (Error (js ''Invalid layer in array'')) else Inr upper))"

fun validateLayers ::
  "(jsstring \<Rightarrow> jsstring) \<Rightarrow> js_value \<Rightarrow> js_error + jsstring list option" where
  "validateLayers toUpperCase Undefined = Inr None"
| "validateLayers toUpperCase Null = Inr None"
| "validateLayers toUpperCase (Arr layers) =
     (case mapThrowing (validateLayerElement toUpperCase) layers of
        Inl err \<Rightarrow> Inl err
      | Inr upper \<Rightarrow> Inr (Some upper))"
| "validateLayers toUpperCase _ = Inl (Error (js ''layers must be an array''))"

text \<open>
  The comparisons of the numeric validators: \<open>isNaN(n)\<close>, \<open>n < k\<close> and
  \<open>Math.min(n, k)\<close> for a finite \<open>k\<close>.
\<close>

definition isNaN :: "number \<Rightarrow> bool" where
  "isNaN n \<longleftrightarrow> n = NaN"

fun numLess :: "number \<Rightarrow> rat \<Rightarrow> bool" where
  "numLess NaN k = False"
| "numLess NegInfinity k = True"
| "numLess (Finite q) k = (q < k)"
| "numLess PosInfinity k = False"

fun Math_min :: "number \<Rightarrow> rat \<Rightarrow> number" where
  "Math_min NaN k = NaN"
| "Math_min NegInfinity k = NegInfinity"
| "Math_min (Finite q) k = Finite (min q k)"
| "Math_min PosInfinity k = Finite k"

text \<open>
  \<open>validateLimit(limit, max = 50, defaultVal = 10)\<close> and
  \<open>validateMaxTokens(maxTokens, defaultVal = 4000)\<close>. For a value that is not a number
  they compute \<open>parseInt(String(value), 10)\<close>: the conversion to a string is the host's
  and may throw, so the expression is a parameter of the model.
\<close>

definition validateLimit ::
  "(js_value \<Rightarrow> js_error + number) \<Rightarrow> js_value \<Rightarrow> rat \<Rightarrow> rat \<Rightarrow> js_error + number" where
  "validateLimit parseIntString limit max' defaultVal =
     (case limit of
        Undefined \<Rightarrow> Inr (Finite defaultVal)
      | Null \<Rightarrow> Inr (Finite defaultVal)
      | _ \<Rightarrow>
          (case (case limit of Num n \<Rightarrow> Inr n | _ \<Rightarrow> parseIntString limit) of
             Inl err \<Rightarrow> Inl err
           | Inr n \<Rightarrow>
               if isNaN n \<or> numLess n 1 then Inr (Finite defaultVal)
               else Inr (Math_min n max')))"

definition validateMaxTokens ::
  "(js_value \<Rightarrow> js_error + number) \<Rightarrow> js_value \<Rightarrow> rat \<Rightarrow> js_error + number" where
  "validateMaxTokens parseIntString maxTokens defaultVal =
     (case maxTokens of
        Undefined \<Rightarrow> Inr (Finite defaultVal)
      | Null \<Rightarrow> Inr (Finite defaultVal)
      | _ \<Rightarrow>
          (case (case maxTokens of Num n \<Rightarrow> Inr n | _ \<Rightarrow> parseIntString maxTokens) of
             Inl err \<Rightarrow> Inl err
           | Inr n \<Rightarrow>
               if isNaN n \<or> numLess n 100 then Inr (Finite defaultVal)
               else Inr (Math_min n 32000)))"

section \<open>The rate limiter (security/rate-limiter.ts)\<close>

text \<open>
  Timestamps are the integers of \<open>Date.now()\<close>, in milliseconds. \<open>RATE_LIMITS\<close> holds
  the seven own properties of the object literal.
\<close>

record RateLimit =
  maxRequests :: nat
  windowMs :: int

definition RATE_LIMITS :: "jsstring \<rightharpoonup> RateLimit" where
  "RATE_LIMITS = map_of
     [(js ''remember'', \<lparr>maxRequests = 30, windowMs = 60000\<rparr>),
      (js ''recall'', \<lparr>maxRequests = 60, windowMs = 60000\<rparr>),
      (js ''search'', \<lparr>maxRequests = 60, windowMs = 60000\<rparr>),
      (js ''forget'', \<lparr>maxRequests = 10, windowMs = 60000\<rparr>),
      (js ''context'', \<lparr>maxRequests = 20, windowMs = 60000\<rparr>),
      (js ''health'', \<lparr>maxRequests = 60, windowMs = 60000\<rparr>),
      (js ''observe'', \<lparr>maxRequests = 30, windowMs = 60000\<rparr>)]"

text \<open>
  The object literal inherits the members of \<open>Object.prototype\<close>, and
  \<open>RATE_LIMITS[operation]\<close> finds them too: for these keys \<open>limit\<close> is a function (or
  the prototype itself), which is truthy and has neither \<open>windowMs\<close> nor
  \<open>maxRequests\<close>.
\<close>

definition Object_prototype_keys :: "jsstring list" where
  "Object_prototype_keys =
     [js ''constructor'', js ''__defineGetter__'', js ''__defineSetter__'',
      js ''hasOwnProperty'', js ''__lookupGetter__'', js ''__lookupSetter__'',
      js ''isPrototypeOf'', js ''propertyIsEnumerable'', js ''toString'', js ''valueOf'',
      js ''__proto__'', js ''toLocaleString'']"

text \<open>The module-level \<open>windows\<close>: a \<open>Map<string, number[]>\<close>.\<close>

type_synonym rate_windows = "jsstring \<rightharpoonup> int list"

text \<open>Decimal rendering of an integer, as a template literal does it.\<close>

definition digit :: "nat \<Rightarrow> code_unit" where
  "digit d = 0x30 + of_nat d"

fun showNat :: "nat \<Rightarrow> jsstring" where
  "showNat n = (if n < 10 then [digit n] else showNat (n div 10) @ [digit (n mod 10)])"

declare showNat.simps [simp del]

definition showInt :: "int \<Rightarrow> jsstring" where
  "showInt i = (if i < 0 then 0x2D # showNat (nat (- i)) else showNat (nat i))"




text \<open>\<open>Math.ceil(ms / 1000)\<close> on an integer number of milliseconds.\<close>

definition ceilSeconds :: "int \<Rightarrow> int" where
  "ceilSeconds ms = - ((- ms) div 1000)"

text \<open>
  The message of the error thrown on rejection. \<open>timestamps[0]\<close> of an empty array is
  \<open>undefined\<close>, and the arithmetic on it gives \<open>NaN\<close>. Every \<open>windowMs\<close> of the table
  is a multiple of 1000, where \<open>windowMs / 1000\<close> is the integer quotient.
\<close>

definition retryAfterSeconds :: "RateLimit \<Rightarrow> int \<Rightarrow> int list \<Rightarrow> int option" where
  "retryAfterSeconds limit now timestamps =
     (case timestamps of
        [] \<Rightarrow> None
      | oldestValid # _ \<Rightarrow>
          (let retryAfterMs = windowMs limit - (now - oldestValid)
           in Some (ceilSeconds retryAfterMs)))"

definition rateLimitMessage :: "jsstring \<Rightarrow> RateLimit \<Rightarrow> int option \<Rightarrow> jsstring" where
  "rateLimitMessage operation limit retryAfter =
     js ''Rate limit exceeded for '' @ operation @ js ''. Max '' @
     showInt (int (maxRequests limit)) @ js '' requests per '' @
     showInt (windowMs limit div 1000) @ js ''s. Retry after '' @
     (case retryAfter of None \<Rightarrow> js ''NaN'' | Some secs \<Rightarrow> showInt secs) @ js ''s.''"

text \<open>
  \<open>checkRateLimit\<close>. For an inherited key both comparisons are with \<open>undefined\<close> and
  are false: every stored timestamp is filtered out, the call is never rejected, and the
  window becomes the current timestamp alone.
\<close>

definition checkRateLimit ::
  "jsstring \<Rightarrow> int \<Rightarrow> rate_windows \<Rightarrow> (js_error + unit) \<times> rate_windows" where
  "checkRateLimit operation now windows =
     (case RATE_LIMITS operation of
        None \<Rightarrow>
          if operation \<in> set Object_prototype_keys
          then (Inr (), windows(operation \<mapsto> [now]))
          else (Inr (), windows)
      | Some limit \<Rightarrow>
          (let stored = (case windows operation of None \<Rightarrow> [] | Some ts \<Rightarrow> ts);
               timestamps = filter (\<lambda>t. now - t < windowMs limit) stored
           in if length timestamps \<ge> maxRequests limit
              then (Inl (Error (rateLimitMessage operation limit
                                  (retryAfterSeconds limit now timestamps))),
                    windows)
              else (Inr (), windows(operation \<mapsto> timestamps @ [now]))))"

text \<open>\<open>resetRateLimits\<close> clears the map; the module starts with the empty map too.\<close>

definition resetRateLimits :: "rate_windows \<Rightarrow> rate_windows" where
  "resetRateLimits windows = Map.empty"

section \<open>The HTTP client (engram-api.ts)\<close>

text \<open>
  The decoded JSON of a response body. The pairs of a \<open>JObj\<close> are the own properties of
  the object, with distinct keys.
\<close>

datatype json =
    JNull
  | JBool bool
  | JNum number
  | JStr jsstring
  | JArr "json list"
  | JObj "(jsstring \<times> json) list"

text \<open>
  What the host throws inside the \<open>try\<close> block of \<open>request\<close>: \<open>fetch\<close> and
  \<open>Response.text\<close> reject with a \<open>TypeError\<close> or with the \<open>DOMException\<close> named
  \<open>AbortError\<close>, \<open>JSON.parse\<close> throws a \<open>SyntaxError\<close>. All are \<open>Error\<close>
  objects, with a name and a message.
\<close>

datatype host_error = HostError jsstring jsstring

text \<open>
  A \<open>Response\<close> as \<open>request\<close> reads it: \<open>status\<close>, \<open>statusText\<close>,
  \<open>headers.get('retry-after')\<close> and the outcome of \<open>await resp.text()\<close>, which may
  reject.
\<close>

record Response =
  status :: int
  statusText :: jsstring
  retryAfterHeader :: "jsstring option"
  bodyText :: "host_error + jsstring"

definition ok :: "Response \<Rightarrow> bool" where
  "ok resp \<longleftrightarrow> 200 \<le> status resp \<and> status resp \<le> 299"

text \<open>
  \<open>await fetch(...)\<close> resolves with a response or rejects: with an error named
  \<open>AbortError\<close> when the timer of \<open>timeoutMs\<close> aborted the call, with another error
  when no HTTP response was obtained.
\<close>

datatype fetch_outcome = Rejected host_error | Resolved Response

text \<open>
  The world outside the process: what the \<open>n\<close>-th call of \<open>fetch\<close> made by the client
  gives (counted from 0), the \<open>new Date().toISOString()\<close> read while that call's response
  is handled, and \<open>JSON.parse\<close>, which throws on malformed text.
\<close>

record backend =
  fetch :: "nat \<Rightarrow> fetch_outcome"
  toISOString :: "nat \<Rightarrow> jsstring"
  JSON_parse :: "jsstring \<Rightarrow> host_error + json"

text \<open>
  What \<open>request\<close> does to the world, in order: a call of \<open>fetch\<close> with its method and
  path, or an awaited \<open>setTimeout(r, ms)\<close>.
\<close>

datatype event = Fetch jsstring jsstring | Sleep int

fun isFetch :: "event \<Rightarrow> bool" where
  "isFetch (Fetch method path) = True"
| "isFetch (Sleep ms) = False"

text \<open>The mutable state of an \<open>EngramAPI\<close> instance, and the trace of its effects.\<close>

record EngramAPI =
  lastHealthy :: "jsstring option"
  trace :: "event list"

definition sent :: "EngramAPI \<Rightarrow> nat" where
  "sent api = length (filter isFetch (trace api))"

text \<open>
  The \<open>try\<close> block of \<open>request\<close> up to the status checks for 401, 403, 404 and 429: it
  returns the decoded body, throws an \<open>EngramError\<close> (message, statusCode, offline),
  lets an error of the host through, or leaves a response that none of these checks
  handled.
\<close>

datatype completion =
    Returns "json option"
  | ThrowsEngramError jsstring int bool
  | Throws host_error
  | Unhandled Response

definition tryFetch :: "backend \<Rightarrow> nat \<Rightarrow> EngramAPI \<Rightarrow> completion \<times> EngramAPI" where
  "tryFetch env n api =
     (case fetch env n of
        Rejected err \<Rightarrow> (Throws err, api)
      | Resolved resp \<Rightarrow>
          if ok resp then
            (let api' = api\<lparr>lastHealthy := Some (toISOString env n)\<rparr> in
             case bodyText resp of
               Inl err \<Rightarrow> (Throws err, api')
             | Inr txt \<Rightarrow>
                 if txt = [] then (Returns None, api')
                 else (case JSON_parse env txt of
                         Inl err \<Rightarrow> (Throws err, api')
                       | Inr v \<Rightarrow> (Returns (Some v), api')))
          else if status resp = 401 \<or> status resp = 403 then
            (ThrowsEngramError (js ''API key invalid or expired'') (status resp) False, api)
          else if status resp = 404 then
            (ThrowsEngramError (js ''Resource not found'') 404 False, api)
          else if status resp = 429 then
            (ThrowsEngramError
               (js ''Rate limited by Engram backend'' @
                (case retryAfterHeader resp of
                   None \<Rightarrow> []
                 | Some retryAfter \<Rightarrow>
                     if retryAfter = [] then []
                     else js ''. Retry after '' @ retryAfter @ js ''s''))
               429 False, api)
          else (Unhandled resp, api))"

text \<open>
  The message of the last \<open>throw\<close> of the \<open>try\<close> block; \<open>errBody\<close> is
  \<open>await resp.text().catch(() => '')\<close>, and the dash is U+2014.
\<close>

definition apiErrorMessage :: "Response \<Rightarrow> jsstring" where
  "apiErrorMessage resp =
     (let errBody = (case bodyText resp of Inl err \<Rightarrow> [] | Inr txt \<Rightarrow> txt) in
      js ''Engram API error: '' @ showInt (status resp) @ js '' '' @ statusText resp @
      (if errBody = [] then [] else js '' '' @ [0x2014] @ js '' '' @ take 200 errBody))"

text \<open>
  \<open>request(method, path, body, retries)\<close>. The \<open>catch\<close> block rethrows an
  \<open>EngramError\<close> and reads the name and the message of any other error caught.
  Headers and body are the same at every
  attempt and are not part of the trace; the calls of the logger are left out. The
  recursion is the source's. \<open>retries\<close> starts as the \<open>maxRetries\<close> of the
  configuration, the result of a \<open>parseInt\<close>: it may be negative, and a \<open>NaN\<close> fails
  both tests \<open>retries > 0\<close> as a value that is not positive does.
\<close>

function request ::
  "backend \<Rightarrow> jsstring \<Rightarrow> jsstring \<Rightarrow> int \<Rightarrow> EngramAPI \<Rightarrow> (js_error + json option) \<times> EngramAPI"
where
  "request env method path retries api =
     (case tryFetch env (sent api) (api\<lparr>trace := trace api @ [Fetch method path]\<rparr>) of
        (Returns v, api1) \<Rightarrow> (Inr v, api1)
      | (Unhandled resp, api1) \<Rightarrow>
          if status resp \<ge> 500 \<and> retries > 0
          then request env method path (retries - 1)
                 (api1\<lparr>trace := trace api1 @ [Sleep 1000]\<rparr>)
          else (Inl (EngramError (apiErrorMessage resp) (status resp) False), api1)
      | (ThrowsEngramError msg code offline, api1) \<Rightarrow>
          (Inl (EngramError msg code offline), api1)
      | (Throws (HostError name msg), api1) \<Rightarrow>
          if name = js ''AbortError'' then
            (if retries > 0
             then request env method path (retries - 1) api1
             else (Inl (EngramError (js ''Request timed out'') 0 True), api1))
          else (Inl (EngramError (js ''Cannot reach Engram backend: '' @ msg) 0 True), api1))"
  by pat_completeness auto
termination
  by (relation "measure (\<lambda>(env, method, path, retries, api). nat retries)") auto

declare request.simps [simp del]

text \<open>
  The backends of the six tools; \<open>maxRetries\<close> is the default of \<open>retries\<close>.
  \<open>forget\<close> is called with an identifier \<open>validateId\<close> accepted, which
  \<open>encodeURIComponent\<close> leaves as it is.
\<close>

definition remember :: "backend \<Rightarrow> int \<Rightarrow> EngramAPI \<Rightarrow> (js_error + json option) \<times> EngramAPI" where
  "remember env maxRetries api = request env (js ''POST'') (js ''/v1/memories'') maxRetries api"

definition recall :: "backend \<Rightarrow> int \<Rightarrow> EngramAPI \<Rightarrow> (js_error + json option) \<times> EngramAPI" where
  "recall env maxRetries api =
     request env (js ''POST'') (js ''/v1/memories/query'') maxRetries api"

definition search :: "backend \<Rightarrow> int \<Rightarrow> EngramAPI \<Rightarrow> (js_error + json option) \<times> EngramAPI" where
  "search env maxRetries api =
     request env (js ''POST'') (js ''/v1/hierarchy/search'') maxRetries api"

definition forget ::
  "backend \<Rightarrow> int \<Rightarrow> jsstring \<Rightarrow> EngramAPI \<Rightarrow> (js_error + json option) \<times> EngramAPI" where
  "forget env maxRetries id' api =
     request env (js ''DELETE'') (js ''/v1/memories/'' @ id') maxRetries api"

definition api_context :: "backend \<Rightarrow> int \<Rightarrow> EngramAPI \<Rightarrow> (js_error + json option) \<times> EngramAPI" where
  "api_context env maxRetries api = request env (js ''POST'') (js ''/v1/context'') maxRetries api"

definition observe :: "backend \<Rightarrow> int \<Rightarrow> EngramAPI \<Rightarrow> (js_error + json option) \<times> EngramAPI" where
  "observe env maxRetries api =
     request env (js ''POST'') (js ''/v1/auto/observe'') maxRetries api"

definition getLastHealthy :: "EngramAPI \<Rightarrow> jsstring option" where
  "getLastHealthy api = lastHealthy api"

section \<open>The tool handlers (index.ts)\<close>

text \<open>
  A \<open>ToolResult\<close>: \<open>success data\<close> carries the text \<open>JSON.stringify(data, null, 2)\<close>,
  here the data itself (\<open>undefined\<close> when the backend sent no body); \<open>error msg\<close>
  carries the message and \<open>isError: true\<close>.
\<close>

datatype ToolResult = success "json option" | error jsstring

text \<open>
  \<open>handleError(err, operation)\<close>; it reads \<open>api.getLastHealthy()\<close>. A \<open>null\<close> and an
  empty string are both falsy.
\<close>

definition handleError :: "js_error \<Rightarrow> jsstring \<Rightarrow> EngramAPI \<Rightarrow> ToolResult" where
  "handleError err operation api =
     (case err of
        EngramError msg code offline \<Rightarrow>
          if offline then
            error (js ''Memory '' @ operation @ js '' unavailable '' @ [0x2014] @
                   js '' cannot reach Engram backend.'' @
                   (case getLastHealthy api of
                      None \<Rightarrow> []
                    | Some lastSeen \<Rightarrow>
                        if lastSeen = [] then [] else js '' Last seen: '' @ lastSeen))
          else error msg
      | NativeError name msg \<Rightarrow>
          if prefix (js ''Rate limit'') msg then error msg
          else error (js ''Validation error: '' @ msg)
      | NonError \<Rightarrow> error (js ''Unexpected error during '' @ operation))"

text \<open>Sequencing of steps that may throw.\<close>

definition andThen :: "js_error + 'a \<Rightarrow> ('a \<Rightarrow> js_error + 'b) \<Rightarrow> js_error + 'b" where
  "andThen r f = (case r of Inl err \<Rightarrow> Inl err | Inr x \<Rightarrow> f x)"

text \<open>
  Reading a property of a decoded value (\<open>result.id\<close>, \<open>m.raw\<close>): a \<open>TypeError\<close> on
  \<open>undefined\<close> and \<open>null\<close> (with the message of V8), the own property of an object,
  \<open>undefined\<close> on any other value (none of the names read is a member of a prototype).
\<close>

definition getProperty :: "json option \<Rightarrow> jsstring \<Rightarrow> js_error + json option" where
  "getProperty v key =
     (case v of
        None \<Rightarrow> Inl (NativeError (js ''TypeError'')
                  (js ''Cannot read properties of undefined (reading '' @ [0x27] @ key @
                   [0x27] @ js '')''))
      | Some JNull \<Rightarrow> Inl (NativeError (js ''TypeError'')
                  (js ''Cannot read properties of null (reading '' @ [0x27] @ key @
                   [0x27] @ js '')''))
      | Some (JObj props) \<Rightarrow> Inr (map_of props key)
      | Some _ \<Rightarrow> Inr None)"

text \<open>A property of an object literal; \<open>JSON.stringify\<close> omits it when undefined.\<close>

definition property :: "jsstring \<Rightarrow> json option \<Rightarrow> (jsstring \<times> json) list" where
  "property key v = (case v of None \<Rightarrow> [] | Some x \<Rightarrow> [(key, x)])"

text \<open>Truthiness of a decoded value, and of a value that may be \<open>undefined\<close>.\<close>

definition truthy :: "json \<Rightarrow> bool" where
  "truthy v =
     (case v of
        JNull \<Rightarrow> False
      | JBool b \<Rightarrow> b
      | JNum n \<Rightarrow> n \<noteq> NaN \<and> n \<noteq> Finite 0
      | JStr s \<Rightarrow> s \<noteq> []
      | JArr xs \<Rightarrow> True
      | JObj props \<Rightarrow> True)"

definition truthyOpt :: "json option \<Rightarrow> bool" where
  "truthyOpt v = (case v of None \<Rightarrow> False | Some x \<Rightarrow> truthy x)"

text \<open>
  What each handler makes of the decoded result. \<open>remember\<close>:
  \<open>{ stored: true, id: result.id, layer: result.layer }\<close>.
\<close>

definition rememberResult :: "json option \<Rightarrow> js_error + json option" where
  "rememberResult result =
     andThen (getProperty result (js ''id'')) (\<lambda>rid.
     andThen (getProperty result (js ''layer'')) (\<lambda>rlayer.
       Inr (Some (JObj ([(js ''stored'', JBool True)] @
                        property (js ''id'') rid @ property (js ''layer'') rlayer)))))"

text \<open>
  \<open>recall\<close>: the callback of \<open>results.map\<close>, with \<open>content: m.processed || m.raw\<close>,
  and the two returns of the handler.
\<close>

definition recallEntry :: "json \<Rightarrow> js_error + json" where
  "recallEntry m =
     andThen (getProperty (Some m) (js ''id'')) (\<lambda>mid.
     andThen (getProperty (Some m) (js ''processed'')) (\<lambda>processed.
     andThen (if truthyOpt processed then Inr processed
              else getProperty (Some m) (js ''raw'')) (\<lambda>content.
     andThen (getProperty (Some m) (js ''layer'')) (\<lambda>mlayer.
     andThen (getProperty (Some m) (js ''score'')) (\<lambda>score.
     andThen (getProperty (Some m) (js ''tags'')) (\<lambda>mtags.
     andThen (getProperty (Some m) (js ''createdAt'')) (\<lambda>createdAt.
       Inr (JObj (property (js ''id'') mid @ property (js ''content'') content @
                  property (js ''layer'') mlayer @ property (js ''score'') score @
                  property (js ''tags'') mtags @ property (js ''created'') createdAt)))))))))"

definition recallResult :: "json option \<Rightarrow> js_error + json option" where
  "recallResult results =
     (if \<not> truthyOpt results \<or> results = Some (JArr [])
      then Inr (Some (JObj [(js ''memories'', JArr []),
                            (js ''message'', JStr (js ''No matching memories found.''))]))
      else andThen (mapThrowing recallEntry
                      (case results of Some (JArr ms) \<Rightarrow> ms | _ \<Rightarrow> [])) (\<lambda>entries.
             Inr (Some (JObj [(js ''memories'', JArr entries)]))))"

text \<open>
  \<open>context\<close>: \<open>typeof result === 'string' ? result : result.context\<close>, then
  \<open>{ context: contextText }\<close>.
\<close>

definition contextResult :: "json option \<Rightarrow> js_error + json option" where
  "contextResult result =
     andThen (case result of
                Some (JStr s) \<Rightarrow> Inr (Some (JStr s))
              | _ \<Rightarrow> getProperty result (js ''context'')) (\<lambda>contextText.
       Inr (Some (JObj (property (js ''context'') contextText))))"

text \<open>
  \<open>observe\<close>: \<open>extracted: result.memories?.length ?? 0\<close> and
  \<open>memories: result.memories?.map(m => ({ id: m.id, content: m.raw })) ?? []\<close>. A
  decoded value that is neither an array nor nullish has no \<open>map\<close> to call.
\<close>

definition observeEntry :: "json \<Rightarrow> js_error + json" where
  "observeEntry m =
     andThen (getProperty (Some m) (js ''id'')) (\<lambda>mid.
     andThen (getProperty (Some m) (js ''raw'')) (\<lambda>raw.
       Inr (JObj (property (js ''id'') mid @ property (js ''content'') raw))))"

definition lengthOrZero :: "json option \<Rightarrow> json" where
  "lengthOrZero memories =
     (case memories of
        Some (JArr ms) \<Rightarrow> JNum (Finite (of_nat (length ms)))
      | Some (JStr s) \<Rightarrow> JNum (Finite (of_nat (length s)))
      | Some (JObj props) \<Rightarrow>
          (case map_of props (js ''length'') of
             None \<Rightarrow> JNum (Finite 0)
           | Some JNull \<Rightarrow> JNum (Finite 0)
           | Some v \<Rightarrow> v)
      | _ \<Rightarrow> JNum (Finite 0))"

definition observeResult :: "json option \<Rightarrow> js_error + json option" where
  "observeResult result =
     andThen (getProperty result (js ''memories'')) (\<lambda>memories.
     andThen (case memories of
                None \<Rightarrow> Inr []
              | Some JNull \<Rightarrow> Inr []
              | Some (JArr ms) \<Rightarrow> mapThrowing observeEntry ms
              | Some _ \<Rightarrow> Inl (NativeError (js ''TypeError'')
                                 (js ''result.memories?.map is not a function''))) (\<lambda>entries.
       Inr (Some (JObj [(js ''extracted'', lengthOrZero memories),
                        (js ''memories'', JArr entries)]))))"

text \<open>
  The validators a handler calls, in the order of the source; the first that throws ends
  them. The other handlers call one validator each.
\<close>

definition rememberValidators ::
  "(jsstring \<Rightarrow> jsstring) \<Rightarrow> js_value \<Rightarrow> js_value \<Rightarrow> js_value
     \<Rightarrow> js_error + (jsstring \<times> jsstring option \<times> jsstring list option)" where
  "rememberValidators toUpperCase content layer tags =
     andThen (validateContent content) (\<lambda>content'.
     andThen (validateLayer toUpperCase layer) (\<lambda>layer'.
     andThen (validateTags tags) (\<lambda>tags'.
       Inr (content', layer', tags'))))"

definition recallValidators ::
  "(jsstring \<Rightarrow> jsstring) \<Rightarrow> (js_value \<Rightarrow> js_error + number) \<Rightarrow>
     js_value \<Rightarrow> js_value \<Rightarrow> js_value \<Rightarrow> js_value
     \<Rightarrow> js_error + (jsstring \<times> jsstring list option \<times> number \<times> jsstring list option)" where
  "recallValidators toUpperCase parseIntString query layers limit tags =
     andThen (validateQuery query) (\<lambda>query'.
     andThen (validateLayers toUpperCase layers) (\<lambda>layers'.
     andThen (validateLimit parseIntString limit 50 10) (\<lambda>limit'.
     andThen (validateTags tags) (\<lambda>tags'.
       Inr (query', layers', limit', tags')))))"

text \<open>
  The state of the process: the rate windows of the limiter and the client. A handler is
  given the backend, the \<open>maxRetries\<close> of the configuration, the \<open>Date.now()\<close> that
  \<open>checkRateLimit\<close> reads, and the arguments it validates. The body of the request (the
  validated values, and the arguments copied into it unvalidated) does not reach the
  trace. Every handler is a \<open>try\<close> block, which calls \<open>checkRateLimit\<close>, the
  validators, the backend, and returns \<open>success(...)\<close>, and a \<open>catch\<close> block, which
  returns \<open>handleError(err, label)\<close>.
\<close>

record server =
  windows :: rate_windows
  api :: EngramAPI

definition finish :: "jsstring \<Rightarrow> (js_error + json option) \<times> server \<Rightarrow> ToolResult \<times> server" where
  "finish label outcome =
     (case outcome of
        (Inl err, srv') \<Rightarrow> (handleError err label (api srv'), srv')
      | (Inr data, srv') \<Rightarrow> (success data, srv'))"

definition engram_remember_try ::
  "(jsstring \<Rightarrow> jsstring) \<Rightarrow> backend \<Rightarrow> int \<Rightarrow> int \<Rightarrow> js_value \<Rightarrow> js_value \<Rightarrow> js_value
     \<Rightarrow> server \<Rightarrow> (js_error + json option) \<times> server" where
  "engram_remember_try toUpperCase env maxRetries now content layer tags srv =
     (case checkRateLimit (js ''remember'') now (windows srv) of
        (Inl err, w) \<Rightarrow> (Inl err, srv\<lparr>windows := w\<rparr>)
      | (Inr u, w) \<Rightarrow>
          (let srv1 = srv\<lparr>windows := w\<rparr> in
           case rememberValidators toUpperCase content layer tags of
             Inl err \<Rightarrow> (Inl err, srv1)
           | Inr validated \<Rightarrow>
               (case remember env maxRetries (api srv1) of
                  (Inl err, api') \<Rightarrow> (Inl err, srv1\<lparr>api := api'\<rparr>)
                | (Inr result, api') \<Rightarrow> (rememberResult result, srv1\<lparr>api := api'\<rparr>))))"

definition engram_remember ::
  "(jsstring \<Rightarrow> jsstring) \<Rightarrow> backend \<Rightarrow> int \<Rightarrow> int \<Rightarrow> js_value \<Rightarrow> js_value \<Rightarrow> js_value
     \<Rightarrow> server \<Rightarrow> ToolResult \<times> server" where
  "engram_remember toUpperCase env maxRetries now content layer tags srv =
     finish (js ''storage'')
       (engram_remember_try toUpperCase env maxRetries now content layer tags srv)"

definition engram_recall_try ::
  "(jsstring \<Rightarrow> jsstring) \<Rightarrow> (js_value \<Rightarrow> js_error + number) \<Rightarrow> backend \<Rightarrow> int \<Rightarrow> int
     \<Rightarrow> js_value \<Rightarrow> js_value \<Rightarrow> js_value \<Rightarrow> js_value
     \<Rightarrow> server \<Rightarrow> (js_error + json option) \<times> server" where
  "engram_recall_try toUpperCase parseIntString env maxRetries now query layers limit tags srv =
     (case checkRateLimit (js ''recall'') now (windows srv) of
        (Inl err, w) \<Rightarrow> (Inl err, srv\<lparr>windows := w\<rparr>)
      | (Inr u, w) \<Rightarrow>
          (let srv1 = srv\<lparr>windows := w\<rparr> in
           case recallValidators toUpperCase parseIntString query layers limit tags of
             Inl err \<Rightarrow> (Inl err, srv1)
           | Inr validated \<Rightarrow>
               (case recall env maxRetries (api srv1) of
                  (Inl err, api') \<Rightarrow> (Inl err, srv1\<lparr>api := api'\<rparr>)
                | (Inr results, api') \<Rightarrow> (recallResult results, srv1\<lparr>api := api'\<rparr>))))"

definition engram_recall ::
  "(jsstring \<Rightarrow> jsstring) \<Rightarrow> (js_value \<Rightarrow> js_error + number) \<Rightarrow> backend \<Rightarrow> int \<Rightarrow> int
     \<Rightarrow> js_value \<Rightarrow> js_value \<Rightarrow> js_value \<Rightarrow> js_value
     \<Rightarrow> server \<Rightarrow> ToolResult \<times> server" where
  "engram_recall toUpperCase parseIntString env maxRetries now query layers limit tags srv =
     finish (js ''recall'')
       (engram_recall_try toUpperCase parseIntString env maxRetries now query layers limit tags
          srv)"

definition engram_search_try ::
  "backend \<Rightarrow> int \<Rightarrow> int \<Rightarrow> js_value \<Rightarrow> server \<Rightarrow> (js_error + json option) \<times> server" where
  "engram_search_try env maxRetries now query srv =
     (case checkRateLimit (js ''search'') now (windows srv) of
        (Inl err, w) \<Rightarrow> (Inl err, srv\<lparr>windows := w\<rparr>)
      | (Inr u, w) \<Rightarrow>
          (let srv1 = srv\<lparr>windows := w\<rparr> in
           case validateQuery query of
             Inl err \<Rightarrow> (Inl err, srv1)
           | Inr query' \<Rightarrow>
               (case search env maxRetries (api srv1) of
                  (Inl err, api') \<Rightarrow> (Inl err, srv1\<lparr>api := api'\<rparr>)
                | (Inr results, api') \<Rightarrow> (Inr results, srv1\<lparr>api := api'\<rparr>))))"

definition engram_search ::
  "backend \<Rightarrow> int \<Rightarrow> int \<Rightarrow> js_value \<Rightarrow> server \<Rightarrow> ToolResult \<times> server" where
  "engram_search env maxRetries now query srv =
     finish (js ''search'') (engram_search_try env maxRetries now query srv)"

definition engram_forget_try ::
  "backend \<Rightarrow> int \<Rightarrow> int \<Rightarrow> js_value \<Rightarrow> server \<Rightarrow> (js_error + json option) \<times> server" where
  "engram_forget_try env maxRetries now memoryId srv =
     (case checkRateLimit (js ''forget'') now (windows srv) of
        (Inl err, w) \<Rightarrow> (Inl err, srv\<lparr>windows := w\<rparr>)
      | (Inr u, w) \<Rightarrow>
          (let srv1 = srv\<lparr>windows := w\<rparr> in
           case validateId memoryId of
             Inl err \<Rightarrow> (Inl err, srv1)
           | Inr id' \<Rightarrow>
               (case forget env maxRetries id' (api srv1) of
                  (Inl err, api') \<Rightarrow> (Inl err, srv1\<lparr>api := api'\<rparr>)
                | (Inr result, api') \<Rightarrow>
                    (Inr (Some (JObj [(js ''deleted'', JBool True),
                                      (js ''memoryId'', JStr id')])),
                     srv1\<lparr>api := api'\<rparr>))))"

definition engram_forget ::
  "backend \<Rightarrow> int \<Rightarrow> int \<Rightarrow> js_value \<Rightarrow> server \<Rightarrow> ToolResult \<times> server" where
  "engram_forget env maxRetries now memoryId srv =
     finish (js ''deletion'') (engram_forget_try env maxRetries now memoryId srv)"

definition engram_context_try ::
  "(js_value \<Rightarrow> js_error + number) \<Rightarrow> backend \<Rightarrow> int \<Rightarrow> int \<Rightarrow> js_value \<Rightarrow> server
     \<Rightarrow> (js_error + json option) \<times> server" where
  "engram_context_try parseIntString env maxRetries now maxTokens srv =
     (case checkRateLimit (js ''context'') now (windows srv) of
        (Inl err, w) \<Rightarrow> (Inl err, srv\<lparr>windows := w\<rparr>)
      | (Inr u, w) \<Rightarrow>
          (let srv1 = srv\<lparr>windows := w\<rparr> in
           case validateMaxTokens parseIntString maxTokens 4000 of
             Inl err \<Rightarrow> (Inl err, srv1)
           | Inr maxTokens' \<Rightarrow>
               (case api_context env maxRetries (api srv1) of
                  (Inl err, api') \<Rightarrow> (Inl err, srv1\<lparr>api := api'\<rparr>)
                | (Inr result, api') \<Rightarrow> (contextResult result, srv1\<lparr>api := api'\<rparr>))))"

definition engram_context ::
  "(js_value \<Rightarrow> js_error + number) \<Rightarrow> backend \<Rightarrow> int \<Rightarrow> int \<Rightarrow> js_value \<Rightarrow> server
     \<Rightarrow> ToolResult \<times> server" where
  "engram_context parseIntString env maxRetries now maxTokens srv =
     finish (js ''context generation'')
       (engram_context_try parseIntString env maxRetries now maxTokens srv)"

definition engram_observe_try ::
  "backend \<Rightarrow> int \<Rightarrow> int \<Rightarrow> js_value \<Rightarrow> server \<Rightarrow> (js_error + json option) \<times> server" where
  "engram_observe_try env maxRetries now content srv =
     (case checkRateLimit (js ''observe'') now (windows srv) of
        (Inl err, w) \<Rightarrow> (Inl err, srv\<lparr>windows := w\<rparr>)
      | (Inr u, w) \<Rightarrow>
          (let srv1 = srv\<lparr>windows := w\<rparr> in
           case validateContent content of
             Inl err \<Rightarrow> (Inl err, srv1)
           | Inr content' \<Rightarrow>
               (case observe env maxRetries (api srv1) of
                  (Inl err, api') \<Rightarrow> (Inl err, srv1\<lparr>api := api'\<rparr>)
                | (Inr result, api') \<Rightarrow> (observeResult result, srv1\<lparr>api := api'\<rparr>))))"

definition engram_observe ::
  "backend \<Rightarrow> int \<Rightarrow> int \<Rightarrow> js_value \<Rightarrow> server \<Rightarrow> ToolResult \<times> server" where
  "engram_observe env maxRetries now content srv =
     finish (js ''observation'') (engram_observe_try env maxRetries now content srv)"

text \<open>
  A run of the limiter: the calls of \<open>checkRateLimit\<close> in the order they are made, each
  with its operation key and the \<open>Date.now()\<close> it reads. \<open>admitted\<close> lists the
  timestamps of the calls for one operation that did not throw.
\<close>

fun admitted :: "jsstring \<Rightarrow> (jsstring \<times> int) list \<Rightarrow> rate_windows \<Rightarrow> int list" where
  "admitted operation [] w = []"
| "admitted operation ((key, now) # calls) w =
     (case checkRateLimit key now w of
        (Inl err, w') \<Rightarrow> admitted operation calls w'
      | (Inr u, w') \<Rightarrow>
          (if key = operation then [now] else []) @ admitted operation calls w')"


text \<open>The array stored for a key, as \<open>windows.get(key) || []\<close> reads it.\<close>

definition storedWindow :: "rate_windows \<Rightarrow> jsstring \<Rightarrow> int list" where
  "storedWindow w key = (case w key of None \<Rightarrow> [] | Some ts \<Rightarrow> ts)"

text \<open>The timestamps of a list that lie in the window of \<open>width\<close> ms that starts at \<open>s\<close>.\<close>

definition inWindow :: "int \<Rightarrow> int \<Rightarrow> int list \<Rightarrow> int list" where
  "inWindow s width ts = filter (\<lambda>t. s \<le> t \<and> t < s + width) ts"

section \<open>Kinds of failure of one attempt\<close>

text \<open>
  The outcome of the \<open>n\<close>-th attempt as the \<open>try\<close> block sees it; it does not depend
  on the state of the client.
\<close>

definition attempt :: "backend \<Rightarrow> nat \<Rightarrow> completion" where
  "attempt env n = fst (tryFetch env n \<lparr>lastHealthy = None, trace = []\<rparr>)"

text \<open>
  A server failure is a response with a 5xx-class status. A timeout is an \<open>AbortError\<close>
  caught by \<open>request\<close>: the timer fired while \<open>fetch\<close> or the reading of the body was
  pending. Any other error of the host is reported as unreachable backend; among these, a
  connection-level failure is a rejection of \<open>fetch\<close> itself: no HTTP response was
  obtained.
\<close>

definition serverFailure :: "backend \<Rightarrow> nat \<Rightarrow> bool" where
  "serverFailure env n \<longleftrightarrow>
     (case attempt env n of Unhandled resp \<Rightarrow> 500 \<le> status resp | _ \<Rightarrow> False)"

definition timedOut :: "backend \<Rightarrow> nat \<Rightarrow> bool" where
  "timedOut env n \<longleftrightarrow>
     (case attempt env n of
        Throws (HostError name msg) \<Rightarrow> name = js ''AbortError''
      | _ \<Rightarrow> False)"

definition otherFailure :: "backend \<Rightarrow> nat \<Rightarrow> bool" where
  "otherFailure env n \<longleftrightarrow>
     (case attempt env n of
        Throws (HostError name msg) \<Rightarrow> name \<noteq> js ''AbortError''
      | _ \<Rightarrow> False)"

definition connectionFailure :: "backend \<Rightarrow> nat \<Rightarrow> bool" where
  "connectionFailure env n \<longleftrightarrow>
     (case fetch env n of
        Rejected (HostError name msg) \<Rightarrow> name \<noteq> js ''AbortError''
      | Resolved resp \<Rightarrow> False)"



text \<open>
  The client after a history of requests, each with its method, path and retry budget,
  made one after the other.
\<close>

fun requests :: "backend \<Rightarrow> (jsstring \<times> jsstring \<times> int) list \<Rightarrow> EngramAPI \<Rightarrow> EngramAPI" where
  "requests env [] a = a"
| "requests env ((method, path, retries) # history) a =
     requests env history (snd (request env method path retries a))"

text \<open>The wait between the \<open>n\<close>-th attempt and the one that retries it.\<close>

definition pause :: "backend \<Rightarrow> nat \<Rightarrow> event list" where
  "pause env n = (if serverFailure env n then [Sleep 1000] else [])"

text \<open>\<open>err instanceof EngramError && err.offline\<close>\<close>

definition offline :: "js_error \<Rightarrow> bool" where
  "offline err = (case err of EngramError msg code off \<Rightarrow> off | _ \<Rightarrow> False)"

text \<open>The message \<open>handleError\<close> gives for an offline error, up to the last-seen part.\<close>

definition unavailable :: "jsstring \<Rightarrow> jsstring" where
  "unavailable operation =
     js ''Memory '' @ operation @ js '' unavailable '' @ [0x2014] @
     js '' cannot reach Engram backend.''"

section \<open>Test doubles\<close>

definition freshAPI :: EngramAPI where
  "freshAPI = \<lparr>lastHealthy = None, trace = []\<rparr>"

definition response :: "int \<Rightarrow> jsstring \<Rightarrow> jsstring \<Rightarrow> Response" where
  "response code reason body =
     \<lparr>status = code, statusText = reason, retryAfterHeader = None, bodyText = Inr body\<rparr>"

text \<open>A parser that knows the text \<open>null\<close> and rejects everything else.\<close>

definition parseNull :: "jsstring \<Rightarrow> host_error + json" where
  "parseNull txt =
     (if txt = js ''null'' then Inr JNull
      else Inl (HostError (js ''SyntaxError'') (js ''Unexpected token'')))"

definition AbortError :: host_error where
  "AbortError = HostError (js ''AbortError'') (js ''This operation was aborted'')"

definition fetchFailed :: host_error where
  "fetchFailed = HostError (js ''TypeError'') (js ''fetch failed'')"

text \<open>A transport that answers with the outcomes of a list, in turn, then keeps failing
  to connect.\<close>

definition scripted :: "fetch_outcome list \<Rightarrow> backend" where
  "scripted outcomes =
     \<lparr>fetch = (\<lambda>n. if n < length outcomes then outcomes ! n else Rejected fetchFailed),
      toISOString = (\<lambda>n. js ''2026-01-01T00:00:0'' @ showNat n @ js ''.000Z''),
      JSON_parse = parseNull\<rparr>"

section \<open>Sanitization\<close>

lemma set_trim_subset: "set (trim s) \<subseteq> set s"
  unfolding trim_def by (auto dest!: set_dropWhileD)

lemma dropWhile_front_of_back:
  assumes "ys = [] \<or> \<not> P (hd ys)"
  shows "dropWhile P (rev (dropWhile P (rev ys))) = rev (dropWhile P (rev ys))"
proof (cases "rev (dropWhile P (rev ys)) = []")
  case True
  then show ?thesis by (simp only: dropWhile.simps)
next
  case False
  have "rev ys = takeWhile P (rev ys) @ dropWhile P (rev ys)"
    by simp
  then have "ys = rev (dropWhile P (rev ys)) @ rev (takeWhile P (rev ys))"
    by (metis rev_append rev_rev_ident)
  with False have "hd (rev (dropWhile P (rev ys))) = hd ys"
    by (metis hd_append2)
  moreover from False have "ys \<noteq> []" by auto
  ultimately have "\<not> P (hd (rev (dropWhile P (rev ys))))"
    using assms by simp
  then show ?thesis
    by (simp add: dropWhile_eq_self_iff)
qed

lemma trim_idem: "trim (trim s) = trim s"
proof -
  let ?d = "dropWhile isWhiteSpace"
  have front: "?d (trim s) = trim s"
    unfolding trim_def
    by (rule dropWhile_front_of_back) (metis hd_dropWhile)
  have rear: "?d (rev (trim s)) = rev (trim s)"
    unfolding trim_def by simp
  have "trim (trim s) = rev (?d (rev (?d (trim s))))"
    by (simp add: trim_def)
  also have "\<dots> = trim s"
    by (simp only: front rear rev_rev_ident)
  finally show ?thesis .
qed

lemma sanitize_clean: "filter (\<lambda>c. \<not> isControl c) (sanitizeString s) = sanitizeString s"
  unfolding sanitizeString_def filter_id_conv
  using set_trim_subset by fastforce

text \<open>
  C9. String sanitization (strip the control characters other than newline and tab, then
  trim) is idempotent: sanitizing a sanitized string gives the same string.
\<close>

theorem sanitizeString_idempotent: "sanitizeString (sanitizeString s) = sanitizeString s"
proof -
  have "sanitizeString (sanitizeString s) = trim (sanitizeString s)"
    by (subst sanitizeString_def) (simp only: sanitize_clean)
  also have "\<dots> = sanitizeString s"
    by (simp add: sanitizeString_def trim_idem)
  finally show ?thesis .
qed

text \<open>
  C4. The claim is that every string \<open>validateContent\<close> and \<open>validateQuery\<close> return
  is non-empty. Both test for emptiness before the control characters are stripped: a
  string made of the single control character U+0000 is not blank, passes the test, and
  is returned as the empty string.
\<close>

theorem validators_return_empty_string:
  "validateContent (Str [0x00]) = Inr [] \<and> validateQuery (Str [0x00]) = Inr []"
  by (simp add: trim_def sanitizeString_def isWhiteSpace_def isControl_def)

section \<open>The rate limiter\<close>

lemma RATE_LIMITS_table:
  assumes "RATE_LIMITS operation = Some limit"
  shows "windowMs limit = 60000 \<and>
    (operation, maxRequests limit) \<in> set
      [(js ''remember'', 30), (js ''recall'', 60), (js ''search'', 60), (js ''forget'', 10),
       (js ''context'', 20), (js ''observe'', 30), (js ''health'', 60)]"
  using assms unfolding RATE_LIMITS_def by (auto split: if_splits)

lemma RATE_LIMITS_forget:
  "RATE_LIMITS (js ''forget'') = Some \<lparr>maxRequests = 10, windowMs = 60000\<rparr>"
  by (simp add: RATE_LIMITS_def js_def)


lemma checkRateLimit_unlimited:
  "RATE_LIMITS operation = None \<Longrightarrow>
   checkRateLimit operation now w =
     (Inr (), if operation \<in> set Object_prototype_keys then w(operation \<mapsto> [now]) else w)"
  by (simp add: checkRateLimit_def)

lemma checkRateLimit_limited:
  assumes "RATE_LIMITS operation = Some limit"
  shows "checkRateLimit operation now w =
     (let timestamps = filter (\<lambda>t. now - t < windowMs limit) (storedWindow w operation)
      in if maxRequests limit \<le> length timestamps
         then (Inl (Error (rateLimitMessage operation limit
                             (retryAfterSeconds limit now timestamps))), w)
         else (Inr (), w(operation \<mapsto> timestamps @ [now])))"
  using assms by (simp add: checkRateLimit_def storedWindow_def Let_def)

lemma checkRateLimit_other_key:
  "key \<noteq> operation \<Longrightarrow> snd (checkRateLimit key now w) operation = w operation"
  by (simp add: checkRateLimit_def Let_def split: option.splits)

lemma storedWindow_other_key:
  "key \<noteq> operation \<Longrightarrow>
   storedWindow (snd (checkRateLimit key now w)) operation = storedWindow w operation"
  by (simp add: storedWindow_def checkRateLimit_other_key)

lemma admitted_other_key:
  "key \<noteq> operation \<Longrightarrow>
   admitted operation ((key, now) # calls) w =
   admitted operation calls (snd (checkRateLimit key now w))"
  by (simp split: prod.splits sum.splits)

lemma filter_weaker:
  assumes "\<And>x. P x \<Longrightarrow> Q x"
  shows "filter P (filter Q xs) = filter P xs"
  using assms by (induction xs) auto

lemma length_filter_mono:
  assumes "\<And>x. P x \<Longrightarrow> Q x"
  shows "length (filter P xs) \<le> length (filter Q xs)"
proof -
  have "length (filter P xs) = length (filter P (filter Q xs))"
    by (simp only: filter_weaker [of P Q, OF assms])
  also have "\<dots> \<le> length (filter Q xs)"
    by (rule length_filter_le)
  finally show ?thesis .
qed

lemma inWindow_snoc:
  "inWindow s width (ts @ [t]) =
   inWindow s width ts @ (if s \<le> t \<and> t < s + width then [t] else [])"
  by (simp add: inWindow_def)

lemma inWindow_admit:
  assumes cnt: "\<And>s. length (inWindow s width adm) \<le> m"
    and room: "length (filter (\<lambda>t. now - t < width) adm) < m"
  shows "length (inWindow s width (adm @ [now])) \<le> m"
proof (cases "s \<le> now \<and> now < s + width")
  case True
  have "length (inWindow s width adm) \<le> length (filter (\<lambda>t. now - t < width) adm)"
    unfolding inWindow_def using True by (intro length_filter_mono) linarith
  with room True show ?thesis by (simp add: inWindow_snoc)
next
  case False
  then show ?thesis using cnt [of s] by (auto simp: inWindow_snoc)
qed

lemma sliding_window_invariant:
  assumes lim: "RATE_LIMITS operation = Some limit"
  shows "sorted (lo # map snd calls) \<Longrightarrow>
    (\<And>n. lo \<le> n \<Longrightarrow> filter (\<lambda>t. n - t < windowMs limit) (storedWindow w operation)
        = filter (\<lambda>t. n - t < windowMs limit) adm) \<Longrightarrow>
    (\<And>s. length (inWindow s (windowMs limit) adm) \<le> maxRequests limit) \<Longrightarrow>
    length (inWindow s (windowMs limit) (adm @ admitted operation calls w)) \<le> maxRequests limit"
proof (induction calls arbitrary: lo w adm)
  case Nil
  then show ?case by simp
next
  case (Cons c calls)
  obtain key now where c: "c = (key, now)" by (cases c)
  from Cons.prems(1) c have lo_now: "lo \<le> now" and sorted': "sorted (now # map snd calls)"
    by simp_all
  have inv_now: "\<And>n. now \<le> n \<Longrightarrow>
      filter (\<lambda>t. n - t < windowMs limit) (storedWindow w operation)
        = filter (\<lambda>t. n - t < windowMs limit) adm"
    using Cons.prems(2) lo_now by simp
  show ?case
  proof (cases "key = operation")
    case False
    have "length (inWindow s (windowMs limit)
            (adm @ admitted operation calls (snd (checkRateLimit key now w)))) \<le> maxRequests limit"
      by (rule Cons.IH [of now, OF sorted' _ Cons.prems(3)])
         (simp only: storedWindow_other_key [OF False] inv_now)
    then show ?thesis
      by (simp only: c admitted_other_key [OF False])
  next
    case True
    let ?ts = "filter (\<lambda>t. now - t < windowMs limit) (storedWindow w operation)"
    have ts_adm: "?ts = filter (\<lambda>t. now - t < windowMs limit) adm"
      using inv_now [of now] by simp
    show ?thesis
    proof (cases "maxRequests limit \<le> length ?ts")
      case rejected: True
      then have "admitted operation (c # calls) w = admitted operation calls w"
        by (simp add: c True checkRateLimit_limited [OF lim] Let_def)
      moreover have "length (inWindow s (windowMs limit) (adm @ admitted operation calls w))
          \<le> maxRequests limit"
        by (rule Cons.IH [of now, OF sorted' inv_now Cons.prems(3)])
      ultimately show ?thesis by simp
    next
      case accepted: False
      let ?w' = "w(operation \<mapsto> ?ts @ [now])"
      have step: "admitted operation (c # calls) w = now # admitted operation calls ?w'"
        using accepted by (simp add: c True checkRateLimit_limited [OF lim] Let_def)
      have inv': "filter (\<lambda>t. n - t < windowMs limit) (storedWindow ?w' operation)
          = filter (\<lambda>t. n - t < windowMs limit) (adm @ [now])" if "now \<le> n" for n
      proof -
        have "filter (\<lambda>t. n - t < windowMs limit) ?ts
            = filter (\<lambda>t. n - t < windowMs limit) adm"
          unfolding ts_adm using that by (intro filter_weaker) linarith
        moreover have "storedWindow ?w' operation = ?ts @ [now]"
          by (simp add: storedWindow_def)
        ultimately show ?thesis by (simp only: filter_append)
      qed
      have cnt': "length (inWindow s' (windowMs limit) (adm @ [now])) \<le> maxRequests limit" for s'
        using Cons.prems(3) accepted unfolding ts_adm
        by (intro inWindow_admit) simp_all
      have "length (inWindow s (windowMs limit) ((adm @ [now]) @ admitted operation calls ?w'))
          \<le> maxRequests limit"
        by (rule Cons.IH [of now, OF sorted' inv' cnt'])
      then show ?thesis by (simp add: step)
    qed
  qed
qed

text \<open>
  C3, as amended. For every run of \<open>checkRateLimit\<close> calls whose timestamps never
  decrease, and for every operation key of the budget table, the admitted calls for that
  operation whose timestamps lie in a window \<open>[s, s + 60000)\<close> of 60 seconds are never
  more than the operation's budget (remember 30, recall 60, search 60, forget 10,
  context 20, observe 30, health 60).
\<close>

theorem sliding_window_budget:
  assumes "RATE_LIMITS operation = Some limit"
    and "sorted (map snd calls)"
  shows "length (inWindow s 60000 (admitted operation calls Map.empty)) \<le> maxRequests limit \<and>
    (operation, maxRequests limit) \<in> set
      [(js ''remember'', 30), (js ''recall'', 60), (js ''search'', 60), (js ''forget'', 10),
       (js ''context'', 20), (js ''observe'', 30), (js ''health'', 60)]"
proof -
  have "length (inWindow s (windowMs limit) (admitted operation calls Map.empty))
      \<le> maxRequests limit"
  proof (cases calls)
    case Nil
    then show ?thesis by (simp add: inWindow_def)
  next
    case (Cons c cs)
    with assms(2) have "sorted (snd c # map snd calls)" by simp
    from sliding_window_invariant [OF assms(1) this, of Map.empty "[]" s]
    show ?thesis by (simp add: storedWindow_def inWindow_def)
  qed
  with RATE_LIMITS_table [OF assms(1)] show ?thesis by simp
qed

theorem sliding_window_budget_witness:
  "RATE_LIMITS (js ''forget'') = Some \<lparr>maxRequests = 10, windowMs = 60000\<rparr> \<and>
   sorted (map snd (map (Pair (js ''forget'')) [0, 1, 2, 3, 4, 5, 6, 7, 8, 9, 10 :: int])) \<and>
   length (inWindow 0 60000 (admitted (js ''forget'')
     (map (Pair (js ''forget'')) [0, 1, 2, 3, 4, 5, 6, 7, 8, 9, 10]) Map.empty)) \<le> 10"
proof -
  have lim: "RATE_LIMITS (js ''forget'') = Some \<lparr>maxRequests = 10, windowMs = 60000\<rparr>"
    by (rule RATE_LIMITS_forget)
  have srt: "sorted (map snd (map (Pair (js ''forget'')) [0, 1, 2, 3, 4, 5, 6, 7, 8, 9, 10 :: int]))"
    by simp
  show ?thesis
    using lim srt sliding_window_budget [OF lim srt, of 0] by simp
qed

text \<open>
  C3, as stated, quantifies over arbitrary timestamps. When the clock steps back the
  claim fails: ten \<open>forget\<close> calls at time 0 are admitted, a call at 60000 prunes them
  and is admitted, and a call at time 0 again finds only the timestamp 60000 stored and
  is admitted too, the eleventh admitted call with a timestamp in \<open>[0, 60000)\<close>.
\<close>

theorem sliding_window_clock_regression:
  "RATE_LIMITS (js ''forget'') = Some \<lparr>maxRequests = 10, windowMs = 60000\<rparr> \<and>
   admitted (js ''forget'')
       (map (Pair (js ''forget'')) [0, 0, 0, 0, 0, 0, 0, 0, 0, 0, 60000, 0]) Map.empty
     = [0, 0, 0, 0, 0, 0, 0, 0, 0, 0, 60000, 0] \<and>
   \<not> length (inWindow 0 60000 (admitted (js ''forget'')
       (map (Pair (js ''forget'')) [0, 0, 0, 0, 0, 0, 0, 0, 0, 0, 60000, 0]) Map.empty)) \<le> 10"
  by (simp add: checkRateLimit_def RATE_LIMITS_def js_def inWindow_def)

text \<open>
  C10. For an operation of the budget table, \<open>checkRateLimit\<close> changes the stored
  windows together with its outcome: when it throws, the windows are exactly as before
  the call (no timestamp recorded, the pruned list not written back); when it returns,
  the window of the operation is the pruned list with the current time appended, and
  nothing else changes.
\<close>

theorem checkRateLimit_atomic:
  assumes "RATE_LIMITS operation = Some limit"
    and "checkRateLimit operation now w = (r, w')"
  shows "case r of
           Inl err \<Rightarrow> w' = w \<and> (\<exists>retryAfter. err = Error (rateLimitMessage operation limit retryAfter))
         | Inr u \<Rightarrow> w' = w(operation \<mapsto>
               filter (\<lambda>t. now - t < windowMs limit) (storedWindow w operation) @ [now])"
  using assms(2) unfolding checkRateLimit_limited [OF assms(1)] Let_def
  by (auto split: if_splits)

theorem checkRateLimit_atomic_witness:
  "RATE_LIMITS (js ''forget'') = Some \<lparr>maxRequests = 10, windowMs = 60000\<rparr> \<and>
   checkRateLimit (js ''forget'') 70000 [js ''forget'' \<mapsto> [5, 20000]]
     = (Inr (), [js ''forget'' \<mapsto> [20000, 70000]]) \<and>
   [js ''forget'' \<mapsto> [20000, 70000]] = [js ''forget'' \<mapsto> [5, 20000]](js ''forget'' \<mapsto>
      filter (\<lambda>t. 70000 - t < 60000) (storedWindow [js ''forget'' \<mapsto> [5, 20000]] (js ''forget''))
      @ [70000])"
proof -
  have lim: "RATE_LIMITS (js ''forget'') = Some \<lparr>maxRequests = 10, windowMs = 60000\<rparr>"
    by (rule RATE_LIMITS_forget)
  have run: "checkRateLimit (js ''forget'') 70000 [js ''forget'' \<mapsto> [5, 20000]]
     = (Inr (), [js ''forget'' \<mapsto> [20000, 70000]])"
    by (simp add: checkRateLimit_limited [OF lim] storedWindow_def)
  show ?thesis
    using lim run checkRateLimit_atomic [OF lim run] by simp
qed
















section \<open>The HTTP client\<close>

lemma tryFetch_trace [simp]: "trace (snd (tryFetch env n a)) = trace a"
  by (simp add: tryFetch_def Let_def split: fetch_outcome.splits sum.splits)

lemma tryFetch_attempt: "fst (tryFetch env n a) = attempt env n"
  by (simp add: attempt_def tryFetch_def Let_def split: fetch_outcome.splits sum.splits)

lemma sent_snoc_Fetch [simp]: "sent (a\<lparr>trace := trace a @ [Fetch m p]\<rparr>) = Suc (sent a)"
  by (simp add: sent_def)

lemma sent_snoc_Sleep [simp]: "sent (a\<lparr>trace := trace a @ [Sleep ms]\<rparr>) = sent a"
  by (simp add: sent_def)

lemma tryFetch_sent [simp]: "sent (snd (tryFetch env n a)) = sent a"
  by (simp add: sent_def)


lemma tryFetch_Unhandled:
  "attempt env n = Unhandled resp \<Longrightarrow> tryFetch env n a = (Unhandled resp, a)"
  by (auto simp: attempt_def tryFetch_def Let_def split: fetch_outcome.splits sum.splits if_splits)

lemma tryFetch_pair: "tryFetch env n a = (attempt env n, snd (tryFetch env n a))"
  using tryFetch_attempt [of env n a] by (cases "tryFetch env n a") simp

lemma request_Returns:
  assumes "attempt env (sent a) = Returns v"
  shows "request env method path retries a =
    (Inr v, snd (tryFetch env (sent a) (a\<lparr>trace := trace a @ [Fetch method path]\<rparr>)))"
  by (subst request.simps, subst tryFetch_pair) (simp add: assms)

lemma request_Unhandled:
  assumes "attempt env (sent a) = Unhandled resp"
  shows "request env method path retries a =
    (if status resp \<ge> 500 \<and> retries > 0
     then request env method path (retries - 1)
            (a\<lparr>trace := trace a @ [Fetch method path, Sleep 1000]\<rparr>)
     else (Inl (EngramError (apiErrorMessage resp) (status resp) False),
           a\<lparr>trace := trace a @ [Fetch method path]\<rparr>))"
  by (subst request.simps) (simp add: tryFetch_Unhandled [OF assms])

lemma request_Throws_EngramError:
  assumes "attempt env (sent a) = ThrowsEngramError msg code off"
  shows "request env method path retries a =
    (Inl (EngramError msg code off),
     snd (tryFetch env (sent a) (a\<lparr>trace := trace a @ [Fetch method path]\<rparr>)))"
  by (subst request.simps, subst tryFetch_pair) (simp add: assms)

lemma request_timedOut:
  assumes "timedOut env (sent a)"
  shows "request env method path retries a =
    (if retries > 0
     then request env method path (retries - 1)
            (snd (tryFetch env (sent a) (a\<lparr>trace := trace a @ [Fetch method path]\<rparr>)))
     else (Inl (EngramError (js ''Request timed out'') 0 True),
           snd (tryFetch env (sent a) (a\<lparr>trace := trace a @ [Fetch method path]\<rparr>))))"
proof -
  from assms obtain msg where "attempt env (sent a) = Throws (HostError (js ''AbortError'') msg)"
    by (auto simp: timedOut_def split: completion.splits host_error.splits)
  then show ?thesis
    by (subst request.simps, subst tryFetch_pair) simp
qed

lemma request_otherFailure:
  assumes "otherFailure env (sent a)" and "attempt env (sent a) = Throws (HostError name msg)"
  shows "request env method path retries a =
    (Inl (EngramError (js ''Cannot reach Engram backend: '' @ msg) 0 True),
     snd (tryFetch env (sent a) (a\<lparr>trace := trace a @ [Fetch method path]\<rparr>)))"
  using assms
  by (subst request.simps, subst tryFetch_pair) (auto simp: otherFailure_def)


text \<open>Every attempt is of exactly one kind.\<close>

lemma attempt_kinds:
  "(\<exists>v. attempt env n = Returns v) \<or>
   (\<exists>msg code off. attempt env n = ThrowsEngramError msg code off) \<or>
   (\<exists>resp. attempt env n = Unhandled resp) \<or>
   timedOut env n \<or>
   (otherFailure env n \<and> (\<exists>name msg. attempt env n = Throws (HostError name msg)))"
  by (auto simp: timedOut_def otherFailure_def split: completion.splits host_error.splits)

text \<open>The events of a run that retried the attempts n, ..., n + k - 1.\<close>

lemma retried_events_Suc:
  "concat (map (\<lambda>i. Fetch m p # pause env i) [n ..< n + Suc k]) =
   (Fetch m p # pause env n) @ concat (map (\<lambda>i. Fetch m p # pause env i) [Suc n ..< Suc n + k])"
proof -
  have "[n ..< n + Suc k] = n # [Suc n ..< Suc n + k]"
    by (simp add: upt_conv_Cons del: upt_Suc)
  then show ?thesis by (simp only: list.map concat.simps)
qed

lemma pause_timedOut: "timedOut env n \<Longrightarrow> pause env n = []"
  by (auto simp: pause_def serverFailure_def timedOut_def split: completion.splits)

lemma retry_trace:
  "\<exists>k. int k \<le> max 0 retries \<and>
     trace (snd (request env method path retries a)) =
       trace a @ concat (map (\<lambda>i. Fetch method path # pause env i) [sent a ..< sent a + k])
         @ [Fetch method path] \<and>
     (\<forall>i\<in>{sent a ..< sent a + k}. serverFailure env i \<or> timedOut env i)"
proof (induction "nat retries" arbitrary: retries a)
  case 0
  then have r: "\<not> retries > 0" by simp
  have "trace (snd (request env method path retries a)) = trace a @ [Fetch method path]"
    using attempt_kinds [of env "sent a"] r
    by (auto simp: request_Returns request_Unhandled request_Throws_EngramError
        request_timedOut request_otherFailure)
  then show ?case by (intro exI [of _ 0]) simp
next
  case (Suc n)
  then have r: "retries > 0" and n: "n = nat (retries - 1)" by simp_all
  let ?n = "sent a"
  consider (srv) "serverFailure env ?n" | (abort) "timedOut env ?n"
    | (final) "\<not> serverFailure env ?n" "\<not> timedOut env ?n"
    by blast
  then show ?case
  proof cases
    case srv
    then obtain resp where resp: "attempt env ?n = Unhandled resp" "500 \<le> status resp"
      by (auto simp: serverFailure_def split: completion.splits)
    let ?a' = "a\<lparr>trace := trace a @ [Fetch method path, Sleep 1000]\<rparr>"
    have step: "request env method path retries a = request env method path (retries - 1) ?a'"
      using resp r by (simp add: request_Unhandled)
    have sent': "sent ?a' = Suc ?n" by (simp add: sent_def)
    from Suc.hyps(1) [OF n, of ?a'] obtain k where k: "int k \<le> max 0 (retries - 1)"
      "trace (snd (request env method path (retries - 1) ?a')) =
        trace ?a' @ concat (map (\<lambda>i. Fetch method path # pause env i) [Suc ?n ..< Suc ?n + k])
          @ [Fetch method path]"
      "\<forall>i\<in>{Suc ?n ..< Suc ?n + k}. serverFailure env i \<or> timedOut env i"
      unfolding sent' by blast
    have "int (Suc k) \<le> max 0 retries" using k(1) r by simp
    moreover have "trace (snd (request env method path retries a)) =
       trace a @ concat (map (\<lambda>i. Fetch method path # pause env i) [?n ..< ?n + Suc k])
         @ [Fetch method path]"
      unfolding step k(2) retried_events_Suc using srv by (simp add: pause_def)
    moreover have "\<forall>i\<in>{?n ..< ?n + Suc k}. serverFailure env i \<or> timedOut env i"
    proof
      fix i assume "i \<in> {?n ..< ?n + Suc k}"
      then have "i = ?n \<or> i \<in> {Suc ?n ..< Suc ?n + k}" by auto
      with srv k(3) show "serverFailure env i \<or> timedOut env i" by blast
    qed
    ultimately show ?thesis by blast
  next
    case abort
    let ?a' = "snd (tryFetch env ?n (a\<lparr>trace := trace a @ [Fetch method path]\<rparr>))"
    have step: "request env method path retries a = request env method path (retries - 1) ?a'"
      using abort r by (simp add: request_timedOut)
    have sent': "sent ?a' = Suc ?n" by simp
    have trace': "trace ?a' = trace a @ [Fetch method path]" by simp
    from Suc.hyps(1) [OF n, of ?a'] obtain k where k: "int k \<le> max 0 (retries - 1)"
      "trace (snd (request env method path (retries - 1) ?a')) =
        trace ?a' @ concat (map (\<lambda>i. Fetch method path # pause env i) [Suc ?n ..< Suc ?n + k])
          @ [Fetch method path]"
      "\<forall>i\<in>{Suc ?n ..< Suc ?n + k}. serverFailure env i \<or> timedOut env i"
      unfolding sent' by blast
    have "int (Suc k) \<le> max 0 retries" using k(1) r by simp
    moreover have "trace (snd (request env method path retries a)) =
       trace a @ concat (map (\<lambda>i. Fetch method path # pause env i) [?n ..< ?n + Suc k])
         @ [Fetch method path]"
      unfolding step k(2) retried_events_Suc trace' using abort by (simp add: pause_timedOut)
    moreover have "\<forall>i\<in>{?n ..< ?n + Suc k}. serverFailure env i \<or> timedOut env i"
    proof
      fix i assume "i \<in> {?n ..< ?n + Suc k}"
      then have "i = ?n \<or> i \<in> {Suc ?n ..< Suc ?n + k}" by auto
      with abort k(3) show "serverFailure env i \<or> timedOut env i" by blast
    qed
    ultimately show ?thesis by blast
  next
    case final
    have "trace (snd (request env method path retries a)) = trace a @ [Fetch method path]"
      using attempt_kinds [of env "sent a"] final
      by (auto simp: request_Returns request_Unhandled request_Throws_EngramError
          request_otherFailure serverFailure_def)
    then show ?thesis by (intro exI [of _ 0]) simp
  qed
qed

lemma sent_retried_events:
  "length (filter isFetch (concat (map (\<lambda>i. Fetch m p # pause env i) xs))) = length xs"
  by (induction xs) (simp_all add: pause_def)

lemma attempts_bound:
  "int (sent (snd (request env method path retries a))) \<le> int (sent a) + max 0 retries + 1"
proof -
  from retry_trace [of retries env "method" "path" a] obtain k where k: "int k \<le> max 0 retries"
    "trace (snd (request env method path retries a)) =
       trace a @ concat (map (\<lambda>i. Fetch method path # pause env i) [sent a ..< sent a + k])
         @ [Fetch method path]"
    by blast
  have "sent (snd (request env method path retries a)) = sent a + k + 1"
    unfolding sent_def k(2) by (simp add: sent_retried_events)
  with k(1) show ?thesis by simp
qed

lemma server_failure_attempt:
  assumes "fetch env n = Resolved resp" and "500 \<le> status resp"
  shows "attempt env n = Unhandled resp"
  using assms by (simp add: attempt_def tryFetch_def ok_def)

lemma success_attempt:
  assumes "fetch env n = Resolved resp" and "ok resp" and "bodyText resp = Inr txt"
    and "txt \<noteq> [] \<longrightarrow> JSON_parse env txt = Inr v"
  shows "tryFetch env n a =
    (Returns (if txt = [] then None else Some v), a\<lparr>lastHealthy := Some (toISOString env n)\<rparr>)"
  using assms by (simp add: tryFetch_def)

lemma two_failures_then_success:
  assumes r1: "fetch env (sent a) = Resolved r1" "500 \<le> status r1"
    and r2: "fetch env (sent a + 1) = Resolved r2" "500 \<le> status r2"
    and r3: "fetch env (sent a + 2) = Resolved r3" "ok r3" "bodyText r3 = Inr txt"
      "txt \<noteq> [] \<longrightarrow> JSON_parse env txt = Inr v"
  shows "request env method path 2 a =
    (Inr (if txt = [] then None else Some v),
     a\<lparr>lastHealthy := Some (toISOString env (sent a + 2)),
       trace := trace a @ [Fetch method path, Sleep 1000, Fetch method path, Sleep 1000,
                          Fetch method path]\<rparr>)"
proof -
  let ?a1 = "a\<lparr>trace := trace a @ [Fetch method path, Sleep 1000]\<rparr>"
  let ?a2 = "?a1\<lparr>trace := trace ?a1 @ [Fetch method path, Sleep 1000]\<rparr>"
  have s1: "sent ?a1 = sent a + 1" and s2: "sent ?a2 = sent a + 2"
    by (simp_all add: sent_def)
  have "request env method path 2 a = request env method path 1 ?a1"
    using r1 by (simp add: request_Unhandled [OF server_failure_attempt [OF r1]])
  also have "\<dots> = request env method path 0 ?a2"
    using r2 server_failure_attempt [OF r2]
    by (subst request_Unhandled [where resp = r2]) (simp_all add: s1)
  also have "\<dots> = (Inr (if txt = [] then None else Some v),
     snd (tryFetch env (sent ?a2) (?a2\<lparr>trace := trace ?a2 @ [Fetch method path]\<rparr>)))"
    by (rule request_Returns) (simp only: s2 attempt_def success_attempt [OF r3] fst_conv)
  also have "\<dots> = (Inr (if txt = [] then None else Some v),
     a\<lparr>lastHealthy := Some (toISOString env (sent a + 2)),
       trace := trace a @ [Fetch method path, Sleep 1000, Fetch method path, Sleep 1000,
                          Fetch method path]\<rparr>)"
    by (simp only: s2 success_attempt [OF r3] snd_conv) simp
  finally show ?thesis .
qed


lemmas double_simps =
  scripted_def response_def parseNull_def freshAPI_def AbortError_def fetchFailed_def
  tryFetch_def sent_def ok_def js_def

text \<open>
  C6. With a retry budget of 2 and a transport that answers the first two attempts with a
  5xx-class response and the third with a success, \<open>request\<close> returns the decoded body
  of the success after exactly 3 calls of \<open>fetch\<close>. In general, for a retry budget
  \<open>maxRetries \<ge> 0\<close>, one call of \<open>request\<close> makes at most \<open>maxRetries + 1\<close> calls of
  \<open>fetch\<close>.
\<close>

theorem retry_budget:
  "(fetch env (sent a) = Resolved r1 \<and> 500 \<le> status r1 \<and>
    fetch env (sent a + 1) = Resolved r2 \<and> 500 \<le> status r2 \<and>
    fetch env (sent a + 2) = Resolved r3 \<and> ok r3 \<and> bodyText r3 = Inr txt \<and>
    (txt \<noteq> [] \<longrightarrow> JSON_parse env txt = Inr v) \<longrightarrow>
      fst (request env method path 2 a) = Inr (if txt = [] then None else Some v) \<and>
      sent (snd (request env method path 2 a)) = sent a + 3) \<and>
   (0 \<le> maxRetries \<longrightarrow>
      int (sent (snd (request env method path maxRetries a))) - int (sent a) \<le> maxRetries + 1)"
proof (rule conjI; rule impI)
  assume "fetch env (sent a) = Resolved r1 \<and> 500 \<le> status r1 \<and>
    fetch env (sent a + 1) = Resolved r2 \<and> 500 \<le> status r2 \<and>
    fetch env (sent a + 2) = Resolved r3 \<and> ok r3 \<and> bodyText r3 = Inr txt \<and>
    (txt \<noteq> [] \<longrightarrow> JSON_parse env txt = Inr v)"
  then have "request env method path 2 a =
    (Inr (if txt = [] then None else Some v),
     a\<lparr>lastHealthy := Some (toISOString env (sent a + 2)),
       trace := trace a @ [Fetch method path, Sleep 1000, Fetch method path, Sleep 1000,
                          Fetch method path]\<rparr>)"
    by (intro two_failures_then_success) blast+
  then show "fst (request env method path 2 a) = Inr (if txt = [] then None else Some v) \<and>
      sent (snd (request env method path 2 a)) = sent a + 3"
    by (simp add: sent_def)
next
  assume "0 \<le> maxRetries"
  with attempts_bound [of env "method" "path" maxRetries a]
  show "int (sent (snd (request env method path maxRetries a))) - int (sent a) \<le> maxRetries + 1"
    by simp
qed

theorem retry_budget_witness:
  "request (scripted [Resolved (response 500 (js ''Internal Server Error'') []),
                      Resolved (response 503 (js ''Service Unavailable'') []),
                      Resolved (response 200 (js ''OK'') (js ''null''))])
      (js ''GET'') (js ''/v1/health'') 2 freshAPI
    = (Inr (Some JNull),
       \<lparr>lastHealthy = Some (js ''2026-01-01T00:00:02.000Z''),
        trace = [Fetch (js ''GET'') (js ''/v1/health''), Sleep 1000,
                 Fetch (js ''GET'') (js ''/v1/health''), Sleep 1000,
                 Fetch (js ''GET'') (js ''/v1/health'')]\<rparr>) \<and>
   sent (snd (request (scripted [Resolved (response 500 (js ''Internal Server Error'') []),
                      Resolved (response 503 (js ''Service Unavailable'') []),
                      Resolved (response 200 (js ''OK'') (js ''null''))])
      (js ''GET'') (js ''/v1/health'') 2 freshAPI)) - sent freshAPI = 3 \<and>
   (0::int) \<le> 2"
proof -
  let ?env = "scripted [Resolved (response 500 (js ''Internal Server Error'') []),
                      Resolved (response 503 (js ''Service Unavailable'') []),
                      Resolved (response 200 (js ''OK'') (js ''null''))]"
  have run: "request ?env (js ''GET'') (js ''/v1/health'') 2 freshAPI
    = (Inr (Some JNull),
       \<lparr>lastHealthy = Some (js ''2026-01-01T00:00:02.000Z''),
        trace = [Fetch (js ''GET'') (js ''/v1/health''), Sleep 1000,
                 Fetch (js ''GET'') (js ''/v1/health''), Sleep 1000,
                 Fetch (js ''GET'') (js ''/v1/health'')]\<rparr>)"
    by (simp add: request.simps double_simps showNat.simps digit_def)
  have hyp: "fetch ?env (sent freshAPI) = Resolved (response 500 (js ''Internal Server Error'') []) \<and>
      500 \<le> status (response 500 (js ''Internal Server Error'') []) \<and>
      fetch ?env (sent freshAPI + 1) = Resolved (response 503 (js ''Service Unavailable'') []) \<and>
      500 \<le> status (response 503 (js ''Service Unavailable'') []) \<and>
      fetch ?env (sent freshAPI + 2) = Resolved (response 200 (js ''OK'') (js ''null'')) \<and>
      ok (response 200 (js ''OK'') (js ''null'')) \<and>
      bodyText (response 200 (js ''OK'') (js ''null'')) = Inr (js ''null'') \<and>
      (js ''null'' \<noteq> [] \<longrightarrow> JSON_parse ?env (js ''null'') = Inr JNull)"
    by (simp add: double_simps)
  from retry_budget [of ?env freshAPI "response 500 (js ''Internal Server Error'') []"
      "response 503 (js ''Service Unavailable'') []" "response 200 (js ''OK'') (js ''null'')"
      "js ''null''" JNull "js ''GET''" "js ''/v1/health''" 2] hyp
  have "sent (snd (request ?env (js ''GET'') (js ''/v1/health'') 2 freshAPI)) = sent freshAPI + 3"
    by blast
  with run show ?thesis by simp
qed

lemma timedOut_not_serverFailure: "timedOut env n \<Longrightarrow> \<not> serverFailure env n"
  by (auto simp: serverFailure_def timedOut_def split: completion.splits)

text \<open>
  The retry policy of \<open>request\<close>. Only two kinds of failure are retried, a 5xx-class
  response and a timeout, and at most \<open>retries\<close> times. After a 5xx-class response
  \<open>request\<close> waits a fixed 1000 ms before it resends; after a timeout it resends at once,
  with no wait. The effects of a call are the retried attempts, each followed by its wait
  if it has one, and a last attempt.
\<close>

lemma retry_policy:
  "\<exists>k. int k \<le> max 0 retries \<and>
     trace (snd (request env method path retries a)) =
       trace a @
       concat (map (\<lambda>i. Fetch method path # (if serverFailure env i then [Sleep 1000] else []))
                 [sent a ..< sent a + k]) @
       [Fetch method path] \<and>
     (\<forall>i\<in>{sent a ..< sent a + k}.
        (serverFailure env i \<or> timedOut env i) \<and> (timedOut env i \<longrightarrow> \<not> serverFailure env i))"
  using retry_trace [of retries env "method" "path" a] timedOut_not_serverFailure [of env]
  unfolding pause_def by blast

lemma retry_policy_example:
  "trace (snd (request (scripted [Resolved (response 503 (js ''Service Unavailable'') []),
                                  Rejected AbortError,
                                  Resolved (response 200 (js ''OK'') (js ''null''))])
                 (js ''GET'') (js ''/v1/health'') 2 freshAPI))
     = [Fetch (js ''GET'') (js ''/v1/health''), Sleep 1000,
        Fetch (js ''GET'') (js ''/v1/health''),
        Fetch (js ''GET'') (js ''/v1/health'')] \<and>
   serverFailure (scripted [Resolved (response 503 (js ''Service Unavailable'') []),
                            Rejected AbortError,
                            Resolved (response 200 (js ''OK'') (js ''null''))]) 0 \<and>
   (serverFailure (scripted [Resolved (response 503 (js ''Service Unavailable'') []),
                             Rejected AbortError,
                             Resolved (response 200 (js ''OK'') (js ''null''))]) 1 \<or>
    timedOut (scripted [Resolved (response 503 (js ''Service Unavailable'') []),
                        Rejected AbortError,
                        Resolved (response 200 (js ''OK'') (js ''null''))]) 1)"
proof -
  let ?env = "scripted [Resolved (response 503 (js ''Service Unavailable'') []),
                        Rejected AbortError,
                        Resolved (response 200 (js ''OK'') (js ''null''))]"
  let ?m = "js ''GET''" and ?p = "js ''/v1/health''"
  have run: "trace (snd (request ?env ?m ?p 2 freshAPI))
     = [Fetch ?m ?p, Sleep 1000, Fetch ?m ?p, Fetch ?m ?p]"
    by (simp add: request.simps double_simps)
  have first: "serverFailure ?env 0"
    by (simp add: serverFailure_def attempt_def double_simps)
  from retry_policy [of 2 ?env ?m ?p freshAPI]
  obtain k where k: "trace (snd (request ?env ?m ?p 2 freshAPI)) =
       trace freshAPI @
       concat (map (\<lambda>i. Fetch ?m ?p # (if serverFailure ?env i then [Sleep 1000] else []))
                 [sent freshAPI ..< sent freshAPI + k]) @
       [Fetch ?m ?p]"
    and kinds: "\<forall>i\<in>{sent freshAPI ..< sent freshAPI + k}. serverFailure ?env i \<or> timedOut ?env i"
    by blast
  have "length (filter isFetch (trace (snd (request ?env ?m ?p 2 freshAPI)))) = k + 1"
    unfolding k pause_def [symmetric]
    by (simp add: sent_retried_events freshAPI_def)
  then have "k = 2" unfolding run by simp
  with kinds have "serverFailure ?env 1 \<or> timedOut ?env 1"
    by (simp add: freshAPI_def sent_def)
  with run first show ?thesis by blast
qed

text \<open>
  C5 has a wait of 1 second before every retry, whether the attempt before it ended in a
  5xx-class response or in a timeout. The retry after a timeout has none: when the first
  attempt is aborted and the second succeeds, the two calls of \<open>fetch\<close> follow each
  other with no \<open>setTimeout\<close> between them, where the retry after a 5xx-class response
  (lemma \<open>retry_policy\<close>) awaits \<open>setTimeout(r, 1000)\<close> first.
\<close>

theorem timeout_retry_without_wait:
  "timedOut (scripted [Rejected AbortError, Resolved (response 200 (js ''OK'') (js ''null''))]) 0 \<and>
   request (scripted [Rejected AbortError, Resolved (response 200 (js ''OK'') (js ''null''))])
       (js ''GET'') (js ''/v1/health'') 2 freshAPI
     = (Inr (Some JNull),
        \<lparr>lastHealthy = Some (js ''2026-01-01T00:00:01.000Z''),
         trace = [Fetch (js ''GET'') (js ''/v1/health''),
                  Fetch (js ''GET'') (js ''/v1/health'')]\<rparr>) \<and>
   Sleep 1000 \<notin> set [Fetch (js ''GET'') (js ''/v1/health''),
                        Fetch (js ''GET'') (js ''/v1/health'')]"
  by (simp add: request.simps timedOut_def attempt_def double_simps showNat.simps digit_def)

lemma all_attempts_time_out:
  "(\<forall>i. sent a \<le> i \<and> i \<le> sent a + nat retries \<longrightarrow> timedOut env i) \<Longrightarrow>
   \<exists>a'. request env method path retries a
          = (Inl (EngramError (js ''Request timed out'') 0 True), a') \<and>
        sent a' = sent a + nat retries + 1"
proof (induction "nat retries" arbitrary: retries a)
  case 0
  then have "timedOut env (sent a)" and "\<not> retries > 0" by simp_all
  then show ?case by (simp add: request_timedOut)
next
  case (Suc n)
  then have r: "retries > 0" and n: "n = nat (retries - 1)" by simp_all
  let ?a' = "snd (tryFetch env (sent a) (a\<lparr>trace := trace a @ [Fetch method path]\<rparr>))"
  from Suc.prems have first: "timedOut env (sent a)" by simp
  have sent': "sent ?a' = Suc (sent a)" by simp
  have "\<forall>i. sent ?a' \<le> i \<and> i \<le> sent ?a' + nat (retries - 1) \<longrightarrow> timedOut env i"
    using Suc.prems r unfolding sent' by (auto simp: nat_diff_distrib)
  from Suc.hyps(1) [OF n this] obtain a'' where
    "request env method path (retries - 1) ?a'
       = (Inl (EngramError (js ''Request timed out'') 0 True), a'')"
    "sent a'' = sent ?a' + nat (retries - 1) + 1"
    by blast
  with r first show ?case
    unfolding sent' by (simp add: request_timedOut nat_diff_distrib)
qed

lemma handleError_offline:
  "handleError (EngramError msg code True) operation a =
     error (unavailable operation @
            (case lastHealthy a of
               None \<Rightarrow> []
             | Some lastSeen \<Rightarrow> if lastSeen = [] then [] else js '' Last seen: '' @ lastSeen))"
  by (simp add: handleError_def unavailable_def getLastHealthy_def)

text \<open>
  C1, as amended. For every operation, once the retry budget is exhausted, a request whose
  attempts all timed out fails with the error \<open>Request timed out\<close>, whose \<open>offline\<close>
  flag is set: \<open>handleError\<close> answers it with the degraded-mode message that cites the
  last known healthy timestamp, the same answer it gives to a connection-level failure.
\<close>

theorem timeout_reported_offline:
  assumes "\<forall>i. sent a \<le> i \<and> i \<le> sent a + nat retries \<longrightarrow> timedOut env i"
  shows "\<exists>a'. request env method path retries a
          = (Inl (EngramError (js ''Request timed out'') 0 True), a') \<and>
      sent a' = sent a + nat retries + 1 \<and>
      offline (EngramError (js ''Request timed out'') 0 True) \<and>
      handleError (EngramError (js ''Request timed out'') 0 True) operation a' =
        error (unavailable operation @
               (case lastHealthy a' of
                  None \<Rightarrow> []
                | Some lastSeen \<Rightarrow>
                    if lastSeen = [] then [] else js '' Last seen: '' @ lastSeen)) \<and>
      handleError (EngramError (js ''Request timed out'') 0 True) operation a' =
        handleError (EngramError (js ''Cannot reach Engram backend: '' @ reason) 0 True)
          operation a'"
  using all_attempts_time_out [OF assms, of "method" "path"]
  by (auto simp: handleError_offline offline_def)

lemma three_aborts: "i \<le> 2 \<Longrightarrow>
  timedOut (scripted [Rejected AbortError, Rejected AbortError, Rejected AbortError]) i"
proof -
  assume "i \<le> 2"
  then have "i = 0 \<or> i = 1 \<or> i = 2" by auto
  then show ?thesis
    by (auto simp: timedOut_def attempt_def double_simps)
qed

theorem timeout_reported_offline_witness:
  "timedOut (scripted [Rejected AbortError, Rejected AbortError, Rejected AbortError]) 0 \<and>
   timedOut (scripted [Rejected AbortError, Rejected AbortError, Rejected AbortError]) 1 \<and>
   timedOut (scripted [Rejected AbortError, Rejected AbortError, Rejected AbortError]) 2 \<and>
   (\<exists>a'. request (scripted [Rejected AbortError, Rejected AbortError, Rejected AbortError])
            (js ''POST'') (js ''/v1/memories/query'') 2 freshAPI
          = (Inl (EngramError (js ''Request timed out'') 0 True), a') \<and>
        sent a' = 3 \<and>
        handleError (EngramError (js ''Request timed out'') 0 True) (js ''recall'') a' =
          error (js ''Memory recall unavailable '' @ [0x2014] @
                 js '' cannot reach Engram backend.''))"
proof -
  let ?env = "scripted [Rejected AbortError, Rejected AbortError, Rejected AbortError]"
  have hyp: "\<forall>i. sent freshAPI \<le> i \<and> i \<le> sent freshAPI + nat 2 \<longrightarrow> timedOut ?env i"
    using three_aborts by (simp add: freshAPI_def sent_def)
  have run: "request ?env (js ''POST'') (js ''/v1/memories/query'') 2 freshAPI
      = (Inl (EngramError (js ''Request timed out'') 0 True),
         \<lparr>lastHealthy = None,
          trace = [Fetch (js ''POST'') (js ''/v1/memories/query''),
                   Fetch (js ''POST'') (js ''/v1/memories/query''),
                   Fetch (js ''POST'') (js ''/v1/memories/query'')]\<rparr>)"
    by (simp add: request.simps double_simps)
  from timeout_reported_offline [OF hyp, of "js ''POST''" "js ''/v1/memories/query''"
      "js ''recall''" "[]"]
  show ?thesis
    using three_aborts [of 0] three_aborts [of 1] three_aborts [of 2] unfolding run
    by (auto simp: unavailable_def freshAPI_def sent_def js_def)
qed

text \<open>
  C1, as stated, has the timeout distinguishable from the offline kind, and the offline
  classification produced for connection-level failures only. With a retry budget of 2 and
  three attempts that time out, the error carries \<open>offline = true\<close>, and \<open>handleError\<close>
  gives the answer it gives when \<open>fetch\<close> cannot connect.
\<close>

theorem timeout_flagged_offline:
  "timedOut (scripted [Rejected AbortError, Rejected AbortError, Rejected AbortError]) 2 \<and>
   \<not> connectionFailure (scripted [Rejected AbortError, Rejected AbortError, Rejected AbortError]) 2 \<and>
   fst (request (scripted [Rejected AbortError, Rejected AbortError, Rejected AbortError])
          (js ''POST'') (js ''/v1/memories/query'') 2 freshAPI)
     = Inl (EngramError (js ''Request timed out'') 0 True) \<and>
   offline (EngramError (js ''Request timed out'') 0 True) \<and>
   connectionFailure (scripted []) 0 \<and>
   fst (request (scripted []) (js ''POST'') (js ''/v1/memories/query'') 2 freshAPI)
     = Inl (EngramError (js ''Cannot reach Engram backend: fetch failed'') 0 True) \<and>
   handleError (EngramError (js ''Request timed out'') 0 True) (js ''recall'') freshAPI
     = handleError (EngramError (js ''Cannot reach Engram backend: fetch failed'') 0 True)
         (js ''recall'') freshAPI"
  by (simp add: request.simps timedOut_def connectionFailure_def attempt_def offline_def
      handleError_def double_simps)











section \<open>The tool handlers\<close>
lemma admitted_window:
  assumes "checkRateLimit operation now ws = (Inr (), w)" and "RATE_LIMITS operation = Some limit"
  shows "w operation = Some (filter (\<lambda>t. now - t < windowMs limit) (storedWindow ws operation) @ [now])"
  using assms by (auto simp: checkRateLimit_limited Let_def split: if_splits)

lemma RATE_LIMITS_keys:
  "RATE_LIMITS (js ''remember'') = Some \<lparr>maxRequests = 30, windowMs = 60000\<rparr>"
  "RATE_LIMITS (js ''recall'') = Some \<lparr>maxRequests = 60, windowMs = 60000\<rparr>"
  "RATE_LIMITS (js ''search'') = Some \<lparr>maxRequests = 60, windowMs = 60000\<rparr>"
  "RATE_LIMITS (js ''context'') = Some \<lparr>maxRequests = 20, windowMs = 60000\<rparr>"
  "RATE_LIMITS (js ''observe'') = Some \<lparr>maxRequests = 30, windowMs = 60000\<rparr>"
  by (simp_all add: RATE_LIMITS_def js_def)

lemma recorded:
  assumes "checkRateLimit key now ws = (Inr (), w)"
    and "RATE_LIMITS key = Some \<lparr>maxRequests = m, windowMs = 60000\<rparr>"
  shows "w key = Some (filter (\<lambda>t. now - t < 60000) (storedWindow ws key) @ [now])"
  using admitted_window [OF assms] by simp

lemmas handler_defs =
  engram_remember_def engram_remember_try_def engram_recall_def engram_recall_try_def
  engram_search_def engram_search_try_def engram_forget_def engram_forget_try_def
  engram_context_def engram_context_try_def engram_observe_def engram_observe_try_def
  finish_def

lemma remember_limiter_first:
  "(windows (snd (engram_remember toUpperCase env maxRetries now content layer tags srv))
      = snd (checkRateLimit (js ''remember'') now (windows srv)) \<and>
    (\<forall>err w. checkRateLimit (js ''remember'') now (windows srv) = (Inl err, w) \<longrightarrow>
       engram_remember toUpperCase env maxRetries now content layer tags srv
         = (handleError err (js ''storage'') (api srv), srv\<lparr>windows := w\<rparr>)) \<and>
    (\<forall>err w. checkRateLimit (js ''remember'') now (windows srv) = (Inr (), w) \<and>
         rememberValidators toUpperCase content layer tags = Inl err \<longrightarrow>
       engram_remember toUpperCase env maxRetries now content layer tags srv
         = (handleError err (js ''storage'') (api srv), srv\<lparr>windows := w\<rparr>) \<and>
       w (js ''remember'')
         = Some (filter (\<lambda>t. now - t < 60000) (storedWindow (windows srv) (js ''remember'')) @
                 [now])))"
proof (intro conjI allI impI)
  show "windows (snd (engram_remember toUpperCase env maxRetries now content layer tags srv))
      = snd (checkRateLimit (js ''remember'') now (windows srv))"
    by (simp add: handler_defs Let_def split: prod.splits sum.splits)
next
  fix err w
  assume "checkRateLimit (js ''remember'') now (windows srv) = (Inl err, w)"
  then show "engram_remember toUpperCase env maxRetries now content layer tags srv
         = (handleError err (js ''storage'') (api srv), srv\<lparr>windows := w\<rparr>)"
    by (simp add: handler_defs)
next
  fix err w
  assume *: "checkRateLimit (js ''remember'') now (windows srv) = (Inr (), w) \<and>
         rememberValidators toUpperCase content layer tags = Inl err"
  then show "engram_remember toUpperCase env maxRetries now content layer tags srv
         = (handleError err (js ''storage'') (api srv), srv\<lparr>windows := w\<rparr>)"
    by (simp add: handler_defs)
  from * show "w (js ''remember'')
         = Some (filter (\<lambda>t. now - t < 60000) (storedWindow (windows srv) (js ''remember'')) @
                 [now])"
    by (intro recorded [OF _ RATE_LIMITS_keys(1)]) simp
qed

lemma recall_limiter_first:
  "(windows (snd (engram_recall toUpperCase parseIntString env maxRetries now query layers limit tags srv))
      = snd (checkRateLimit (js ''recall'') now (windows srv)) \<and>
    (\<forall>err w. checkRateLimit (js ''recall'') now (windows srv) = (Inl err, w) \<longrightarrow>
       engram_recall toUpperCase parseIntString env maxRetries now query layers limit tags srv
         = (handleError err (js ''recall'') (api srv), srv\<lparr>windows := w\<rparr>)) \<and>
    (\<forall>err w. checkRateLimit (js ''recall'') now (windows srv) = (Inr (), w) \<and>
         recallValidators toUpperCase parseIntString query layers limit tags = Inl err \<longrightarrow>
       engram_recall toUpperCase parseIntString env maxRetries now query layers limit tags srv
         = (handleError err (js ''recall'') (api srv), srv\<lparr>windows := w\<rparr>) \<and>
       w (js ''recall'')
         = Some (filter (\<lambda>t. now - t < 60000) (storedWindow (windows srv) (js ''recall'')) @
                 [now])))"
proof (intro conjI allI impI)
  show "windows (snd (engram_recall toUpperCase parseIntString env maxRetries now query layers limit tags srv))
      = snd (checkRateLimit (js ''recall'') now (windows srv))"
    by (simp add: handler_defs Let_def split: prod.splits sum.splits)
next
  fix err w
  assume "checkRateLimit (js ''recall'') now (windows srv) = (Inl err, w)"
  then show "engram_recall toUpperCase parseIntString env maxRetries now query layers limit tags srv
         = (handleError err (js ''recall'') (api srv), srv\<lparr>windows := w\<rparr>)"
    by (simp add: handler_defs)
next
  fix err w
  assume *: "checkRateLimit (js ''recall'') now (windows srv) = (Inr (), w) \<and>
         recallValidators toUpperCase parseIntString query layers limit tags = Inl err"
  then show "engram_recall toUpperCase parseIntString env maxRetries now query layers limit tags srv
         = (handleError err (js ''recall'') (api srv), srv\<lparr>windows := w\<rparr>)"
    by (simp add: handler_defs)
  from * show "w (js ''recall'')
         = Some (filter (\<lambda>t. now - t < 60000) (storedWindow (windows srv) (js ''recall'')) @
                 [now])"
    by (intro recorded [OF _ RATE_LIMITS_keys(2)]) simp
qed

lemma search_limiter_first:
  "(windows (snd (engram_search env maxRetries now query srv))
      = snd (checkRateLimit (js ''search'') now (windows srv)) \<and>
    (\<forall>err w. checkRateLimit (js ''search'') now (windows srv) = (Inl err, w) \<longrightarrow>
       engram_search env maxRetries now query srv
         = (handleError err (js ''search'') (api srv), srv\<lparr>windows := w\<rparr>)) \<and>
    (\<forall>err w. checkRateLimit (js ''search'') now (windows srv) = (Inr (), w) \<and>
         validateQuery query = Inl err \<longrightarrow>
       engram_search env maxRetries now query srv
         = (handleError err (js ''search'') (api srv), srv\<lparr>windows := w\<rparr>) \<and>
       w (js ''search'')
         = Some (filter (\<lambda>t. now - t < 60000) (storedWindow (windows srv) (js ''search'')) @
                 [now])))"
proof (intro conjI allI impI)
  show "windows (snd (engram_search env maxRetries now query srv))
      = snd (checkRateLimit (js ''search'') now (windows srv))"
    by (simp add: handler_defs Let_def split: prod.splits sum.splits)
next
  fix err w
  assume "checkRateLimit (js ''search'') now (windows srv) = (Inl err, w)"
  then show "engram_search env maxRetries now query srv
         = (handleError err (js ''search'') (api srv), srv\<lparr>windows := w\<rparr>)"
    by (simp add: handler_defs)
next
  fix err w
  assume *: "checkRateLimit (js ''search'') now (windows srv) = (Inr (), w) \<and>
         validateQuery query = Inl err"
  then show "engram_search env maxRetries now query srv
         = (handleError err (js ''search'') (api srv), srv\<lparr>windows := w\<rparr>)"
    by (simp add: handler_defs)
  from * show "w (js ''search'')
         = Some (filter (\<lambda>t. now - t < 60000) (storedWindow (windows srv) (js ''search'')) @
                 [now])"
    by (intro recorded [OF _ RATE_LIMITS_keys(3)]) simp
qed

lemma forget_limiter_first:
  "(windows (snd (engram_forget env maxRetries now memoryId srv))
      = snd (checkRateLimit (js ''forget'') now (windows srv)) \<and>
    (\<forall>err w. checkRateLimit (js ''forget'') now (windows srv) = (Inl err, w) \<longrightarrow>
       engram_forget env maxRetries now memoryId srv
         = (handleError err (js ''deletion'') (api srv), srv\<lparr>windows := w\<rparr>)) \<and>
    (\<forall>err w. checkRateLimit (js ''forget'') now (windows srv) = (Inr (), w) \<and>
         validateId memoryId = Inl err \<longrightarrow>
       engram_forget env maxRetries now memoryId srv
         = (handleError err (js ''deletion'') (api srv), srv\<lparr>windows := w\<rparr>) \<and>
       w (js ''forget'')
         = Some (filter (\<lambda>t. now - t < 60000) (storedWindow (windows srv) (js ''forget'')) @
                 [now])))"
proof (intro conjI allI impI)
  show "windows (snd (engram_forget env maxRetries now memoryId srv))
      = snd (checkRateLimit (js ''forget'') now (windows srv))"
    by (simp add: handler_defs Let_def split: prod.splits sum.splits)
next
  fix err w
  assume "checkRateLimit (js ''forget'') now (windows srv) = (Inl err, w)"
  then show "engram_forget env maxRetries now memoryId srv
         = (handleError err (js ''deletion'') (api srv), srv\<lparr>windows := w\<rparr>)"
    by (simp add: handler_defs)
next
  fix err w
  assume *: "checkRateLimit (js ''forget'') now (windows srv) = (Inr (), w) \<and>
         validateId memoryId = Inl err"
  then show "engram_forget env maxRetries now memoryId srv
         = (handleError err (js ''deletion'') (api srv), srv\<lparr>windows := w\<rparr>)"
    by (simp add: handler_defs)
  from * show "w (js ''forget'')
         = Some (filter (\<lambda>t. now - t < 60000) (storedWindow (windows srv) (js ''forget'')) @
                 [now])"
    by (intro recorded [OF _ RATE_LIMITS_forget]) simp
qed

lemma context_limiter_first:
  "(windows (snd (engram_context parseIntString env maxRetries now maxTokens srv))
      = snd (checkRateLimit (js ''context'') now (windows srv)) \<and>
    (\<forall>err w. checkRateLimit (js ''context'') now (windows srv) = (Inl err, w) \<longrightarrow>
       engram_context parseIntString env maxRetries now maxTokens srv
         = (handleError err (js ''context generation'') (api srv), srv\<lparr>windows := w\<rparr>)) \<and>
    (\<forall>err w. checkRateLimit (js ''context'') now (windows srv) = (Inr (), w) \<and>
         validateMaxTokens parseIntString maxTokens 4000 = Inl err \<longrightarrow>
       engram_context parseIntString env maxRetries now maxTokens srv
         = (handleError err (js ''context generation'') (api srv), srv\<lparr>windows := w\<rparr>) \<and>
       w (js ''context'')
         = Some (filter (\<lambda>t. now - t < 60000) (storedWindow (windows srv) (js ''context'')) @
                 [now])))"
proof (intro conjI allI impI)
  show "windows (snd (engram_context parseIntString env maxRetries now maxTokens srv))
      = snd (checkRateLimit (js ''context'') now (windows srv))"
    by (simp add: handler_defs Let_def split: prod.splits sum.splits)
next
  fix err w
  assume "checkRateLimit (js ''context'') now (windows srv) = (Inl err, w)"
  then show "engram_context parseIntString env maxRetries now maxTokens srv
         = (handleError err (js ''context generation'') (api srv), srv\<lparr>windows := w\<rparr>)"
    by (simp add: handler_defs)
next
  fix err w
  assume *: "checkRateLimit (js ''context'') now (windows srv) = (Inr (), w) \<and>
         validateMaxTokens parseIntString maxTokens 4000 = Inl err"
  then show "engram_context parseIntString env maxRetries now maxTokens srv
         = (handleError err (js ''context generation'') (api srv), srv\<lparr>windows := w\<rparr>)"
    by (simp add: handler_defs)
  from * show "w (js ''context'')
         = Some (filter (\<lambda>t. now - t < 60000) (storedWindow (windows srv) (js ''context'')) @
                 [now])"
    by (intro recorded [OF _ RATE_LIMITS_keys(4)]) simp
qed

lemma observe_limiter_first:
  "(windows (snd (engram_observe env maxRetries now content srv))
      = snd (checkRateLimit (js ''observe'') now (windows srv)) \<and>
    (\<forall>err w. checkRateLimit (js ''observe'') now (windows srv) = (Inl err, w) \<longrightarrow>
       engram_observe env maxRetries now content srv
         = (handleError err (js ''observation'') (api srv), srv\<lparr>windows := w\<rparr>)) \<and>
    (\<forall>err w. checkRateLimit (js ''observe'') now (windows srv) = (Inr (), w) \<and>
         validateContent content = Inl err \<longrightarrow>
       engram_observe env maxRetries now content srv
         = (handleError err (js ''observation'') (api srv), srv\<lparr>windows := w\<rparr>) \<and>
       w (js ''observe'')
         = Some (filter (\<lambda>t. now - t < 60000) (storedWindow (windows srv) (js ''observe'')) @
                 [now])))"
proof (intro conjI allI impI)
  show "windows (snd (engram_observe env maxRetries now content srv))
      = snd (checkRateLimit (js ''observe'') now (windows srv))"
    by (simp add: handler_defs Let_def split: prod.splits sum.splits)
next
  fix err w
  assume "checkRateLimit (js ''observe'') now (windows srv) = (Inl err, w)"
  then show "engram_observe env maxRetries now content srv
         = (handleError err (js ''observation'') (api srv), srv\<lparr>windows := w\<rparr>)"
    by (simp add: handler_defs)
next
  fix err w
  assume *: "checkRateLimit (js ''observe'') now (windows srv) = (Inr (), w) \<and>
         validateContent content = Inl err"
  then show "engram_observe env maxRetries now content srv
         = (handleError err (js ''observation'') (api srv), srv\<lparr>windows := w\<rparr>)"
    by (simp add: handler_defs)
  from * show "w (js ''observe'')
         = Some (filter (\<lambda>t. now - t < 60000) (storedWindow (windows srv) (js ''observe'')) @
                 [now])"
    by (intro recorded [OF _ RATE_LIMITS_keys(5)]) simp
qed

text \<open>
  C2, as amended. In every tool handler (\<open>engram_remember\<close>, \<open>engram_recall\<close>,
  \<open>engram_search\<close>, \<open>engram_forget\<close>, \<open>engram_context\<close>, \<open>engram_observe\<close>) the
  RateLimiter check runs before the Validator. The rate windows after an invocation are
  those that \<open>checkRateLimit\<close> alone leaves, whatever the arguments are. An invocation
  that the limiter rejects is answered with the limiter's error and its arguments are not
  validated. An invocation that the limiter admits and the Validator fails has recorded
  its timestamp in the operation's window; it is answered with the Validator's error and
  the client is left untouched.
\<close>

theorem limiter_before_validator:
  "(windows (snd (engram_remember toUpperCase env maxRetries now content layer tags srv))
      = snd (checkRateLimit (js ''remember'') now (windows srv)) \<and>
    (\<forall>err w. checkRateLimit (js ''remember'') now (windows srv) = (Inl err, w) \<longrightarrow>
       engram_remember toUpperCase env maxRetries now content layer tags srv
         = (handleError err (js ''storage'') (api srv), srv\<lparr>windows := w\<rparr>)) \<and>
    (\<forall>err w. checkRateLimit (js ''remember'') now (windows srv) = (Inr (), w) \<and>
         rememberValidators toUpperCase content layer tags = Inl err \<longrightarrow>
       engram_remember toUpperCase env maxRetries now content layer tags srv
         = (handleError err (js ''storage'') (api srv), srv\<lparr>windows := w\<rparr>) \<and>
       w (js ''remember'')
         = Some (filter (\<lambda>t. now - t < 60000) (storedWindow (windows srv) (js ''remember'')) @
                 [now]))) \<and>
   (windows (snd (engram_recall toUpperCase parseIntString env maxRetries now query layers limit tags srv))
      = snd (checkRateLimit (js ''recall'') now (windows srv)) \<and>
    (\<forall>err w. checkRateLimit (js ''recall'') now (windows srv) = (Inl err, w) \<longrightarrow>
       engram_recall toUpperCase parseIntString env maxRetries now query layers limit tags srv
         = (handleError err (js ''recall'') (api srv), srv\<lparr>windows := w\<rparr>)) \<and>
    (\<forall>err w. checkRateLimit (js ''recall'') now (windows srv) = (Inr (), w) \<and>
         recallValidators toUpperCase parseIntString query layers limit tags = Inl err \<longrightarrow>
       engram_recall toUpperCase parseIntString env maxRetries now query layers limit tags srv
         = (handleError err (js ''recall'') (api srv), srv\<lparr>windows := w\<rparr>) \<and>
       w (js ''recall'')
         = Some (filter (\<lambda>t. now - t < 60000) (storedWindow (windows srv) (js ''recall'')) @
                 [now]))) \<and>
   (windows (snd (engram_search env maxRetries now query srv))
      = snd (checkRateLimit (js ''search'') now (windows srv)) \<and>
    (\<forall>err w. checkRateLimit (js ''search'') now (windows srv) = (Inl err, w) \<longrightarrow>
       engram_search env maxRetries now query srv
         = (handleError err (js ''search'') (api srv), srv\<lparr>windows := w\<rparr>)) \<and>
    (\<forall>err w. checkRateLimit (js ''search'') now (windows srv) = (Inr (), w) \<and>
         validateQuery query = Inl err \<longrightarrow>
       engram_search env maxRetries now query srv
         = (handleError err (js ''search'') (api srv), srv\<lparr>windows := w\<rparr>) \<and>
       w (js ''search'')
         = Some (filter (\<lambda>t. now - t < 60000) (storedWindow (windows srv) (js ''search'')) @
                 [now]))) \<and>
   (windows (snd (engram_forget env maxRetries now memoryId srv))
      = snd (checkRateLimit (js ''forget'') now (windows srv)) \<and>
    (\<forall>err w. checkRateLimit (js ''forget'') now (windows srv) = (Inl err, w) \<longrightarrow>
       engram_forget env maxRetries now memoryId srv
         = (handleError err (js ''deletion'') (api srv), srv\<lparr>windows := w\<rparr>)) \<and>
    (\<forall>err w. checkRateLimit (js ''forget'') now (windows srv) = (Inr (), w) \<and>
         validateId memoryId = Inl err \<longrightarrow>
       engram_forget env maxRetries now memoryId srv
         = (handleError err (js ''deletion'') (api srv), srv\<lparr>windows := w\<rparr>) \<and>
       w (js ''forget'')
         = Some (filter (\<lambda>t. now - t < 60000) (storedWindow (windows srv) (js ''forget'')) @
                 [now]))) \<and>
   (windows (snd (engram_context parseIntString env maxRetries now maxTokens srv))
      = snd (checkRateLimit (js ''context'') now (windows srv)) \<and>
    (\<forall>err w. checkRateLimit (js ''context'') now (windows srv) = (Inl err, w) \<longrightarrow>
       engram_context parseIntString env maxRetries now maxTokens srv
         = (handleError err (js ''context generation'') (api srv), srv\<lparr>windows := w\<rparr>)) \<and>
    (\<forall>err w. checkRateLimit (js ''context'') now (windows srv) = (Inr (), w) \<and>
         validateMaxTokens parseIntString maxTokens 4000 = Inl err \<longrightarrow>
       engram_context parseIntString env maxRetries now maxTokens srv
         = (handleError err (js ''context generation'') (api srv), srv\<lparr>windows := w\<rparr>) \<and>
       w (js ''context'')
         = Some (filter (\<lambda>t. now - t < 60000) (storedWindow (windows srv) (js ''context'')) @
                 [now]))) \<and>
   (windows (snd (engram_observe env maxRetries now content srv))
      = snd (checkRateLimit (js ''observe'') now (windows srv)) \<and>
    (\<forall>err w. checkRateLimit (js ''observe'') now (windows srv) = (Inl err, w) \<longrightarrow>
       engram_observe env maxRetries now content srv
         = (handleError err (js ''observation'') (api srv), srv\<lparr>windows := w\<rparr>)) \<and>
    (\<forall>err w. checkRateLimit (js ''observe'') now (windows srv) = (Inr (), w) \<and>
         validateContent content = Inl err \<longrightarrow>
       engram_observe env maxRetries now content srv
         = (handleError err (js ''observation'') (api srv), srv\<lparr>windows := w\<rparr>) \<and>
       w (js ''observe'')
         = Some (filter (\<lambda>t. now - t < 60000) (storedWindow (windows srv) (js ''observe'')) @
                 [now])))"
  by (intro conjI remember_limiter_first recall_limiter_first search_limiter_first
      forget_limiter_first context_limiter_first observe_limiter_first)

theorem limiter_before_validator_witness:
  "engram_search (scripted []) 2 1000 (Str (js ''   ''))
       \<lparr>windows = Map.empty, api = freshAPI\<rparr>
     = (error (js ''Validation error: query must be a non-empty string''),
        \<lparr>windows = [js ''search'' \<mapsto> [1000]], api = freshAPI\<rparr>) \<and>
   engram_forget (scripted []) 2 1000 (Str (js ''../etc''))
       \<lparr>windows = [js ''forget'' \<mapsto> [1, 2, 3, 4, 5, 6, 7, 8, 9, 10]], api = freshAPI\<rparr>
     = (error (js ''Rate limit exceeded for forget. Max 10 requests per 60s. Retry after 60s.''),
        \<lparr>windows = [js ''forget'' \<mapsto> [1, 2, 3, 4, 5, 6, 7, 8, 9, 10]], api = freshAPI\<rparr>)"
proof -
  let ?full = "[js ''forget'' \<mapsto> [1, 2, 3, 4, 5, 6, 7, 8, 9, 10 :: int]]"
  let ?limited = "Error (js ''Rate limit exceeded for forget. Max 10 requests per 60s. Retry after 60s.'')"
  let ?invalid = "Error (js ''query must be a non-empty string'')"
  have admit: "checkRateLimit (js ''search'') 1000 Map.empty
      = (Inr (), [js ''search'' \<mapsto> [1000]])"
    by (simp add: checkRateLimit_def RATE_LIMITS_def js_def)
  have blank: "validateQuery (Str (js ''   '')) = Inl ?invalid"
    by (simp add: trim_def isWhiteSpace_def js_def)
  have reject: "checkRateLimit (js ''forget'') 1000 ?full = (Inl ?limited, ?full)"
    by (simp add: checkRateLimit_def RATE_LIMITS_def retryAfterSeconds_def ceilSeconds_def
        rateLimitMessage_def showInt_def showNat.simps digit_def js_def)
  note searching = limiter_before_validator [where env = "scripted []" and maxRetries = 2
      and now = 1000 and srv = "\<lparr>windows = Map.empty, api = freshAPI\<rparr>"
      and query = "Str (js ''   '')",
      THEN conjunct2, THEN conjunct2, THEN conjunct1, THEN conjunct2, THEN conjunct2,
      rule_format, of "[js ''search'' \<mapsto> [1000]]" ?invalid]
  note forgetting = limiter_before_validator [where env = "scripted []" and maxRetries = 2
      and now = 1000 and srv = "\<lparr>windows = ?full, api = freshAPI\<rparr>"
      and memoryId = "Str (js ''../etc'')",
      THEN conjunct2, THEN conjunct2, THEN conjunct2, THEN conjunct1, THEN conjunct2,
      THEN conjunct1, rule_format, of ?limited ?full]
  from searching admit blank
  have "engram_search (scripted []) 2 1000 (Str (js ''   ''))
       \<lparr>windows = Map.empty, api = freshAPI\<rparr>
     = (handleError ?invalid (js ''search'') freshAPI,
        \<lparr>windows = [js ''search'' \<mapsto> [1000]], api = freshAPI\<rparr>)"
    by simp
  moreover from forgetting reject
  have "engram_forget (scripted []) 2 1000 (Str (js ''../etc''))
       \<lparr>windows = ?full, api = freshAPI\<rparr>
     = (handleError ?limited (js ''deletion'') freshAPI, \<lparr>windows = ?full, api = freshAPI\<rparr>)"
    by simp
  moreover have "handleError ?invalid (js ''search'') freshAPI
      = error (js ''Validation error: query must be a non-empty string'')"
    "handleError ?limited (js ''deletion'') freshAPI
      = error (js ''Rate limit exceeded for forget. Max 10 requests per 60s. Retry after 60s.'')"
    by (simp_all add: handleError_def Error_def js_def)
  ultimately show ?thesis by simp
qed

text \<open>
  C2, as stated, has the Validator run before the RateLimiter, so that an invocation that
  fails validation records no timestamp. A \<open>forget\<close> invocation with a malformed
  identifier is answered with the validation error, and its timestamp is in the rate
  window of \<open>forget\<close> afterwards.
\<close>

theorem invalid_invocation_consumes_slot:
  "validateId (Str (js ''../etc''))
     = Inl (Error (js
         ''Invalid ID format. Must be 1-128 alphanumeric characters, hyphens, or underscores.'')) \<and>
   engram_forget (scripted []) 2 1000 (Str (js ''../etc''))
       \<lparr>windows = Map.empty, api = freshAPI\<rparr>
     = (error (js
         ''Validation error: Invalid ID format. Must be 1-128 alphanumeric characters, hyphens, or underscores.''),
        \<lparr>windows = [js ''forget'' \<mapsto> [1000]], api = freshAPI\<rparr>)"
  by (simp add: engram_forget_def engram_forget_try_def finish_def checkRateLimit_def
      RATE_LIMITS_def ID_PATTERN_test_def isIdChar_def handleError_def Error_def js_def)

end
